theory Spec2Isabelle
  imports Main "HOL-Library.Word" "HOL-Library.AList"
begin

section \<open>Byte strings, decoded CBOR values and Python errors\<close>

text \<open>
  Python \<open>bytes\<close> are lists of 8-bit words. A decoded CBOR item (what \<open>cbor2.loads\<close>
  returns and \<open>cbor2.dumps\<close> accepts) is a value of \<open>cbor\<close>: integers, byte strings,
  text strings, booleans, lists, dicts and \<open>None\<close>. A \<open>CMap\<close> holds the items of a dict
  in insertion order. Floats and tags are not part of this model.
\<close>

type_synonym bytes = "8 word list"

datatype cbor =
    CInt int
  | CBytes bytes
  | CText string
  | CBool bool
  | CArray "cbor list"
  | CMap "(cbor \<times> cbor) list"
  | CNull

text \<open>
  A Python \<open>bool\<close> is an \<open>int\<close>: \<open>True == 1\<close>, and both are the same dict key.
  \<open>py_eq_int v k\<close> is \<open>v == k\<close> for an integer \<open>k\<close>; \<open>as_key\<close> maps a value to the
  representative of the values equal to it.
\<close>

fun py_eq_int :: "cbor \<Rightarrow> int \<Rightarrow> bool" where
  "py_eq_int (CInt i) k = (i = k)"
| "py_eq_int (CBool b) k = ((if b then 1 else 0) = k)"
| "py_eq_int v k = False"

fun as_key :: "cbor \<Rightarrow> cbor" where
  "as_key (CBool b) = CInt (if b then 1 else 0)"
| "as_key v = v"

text \<open>A dict has no key twice; \<open>wf_cbor\<close> says so for every dict inside a value.\<close>

fun wf_cbor :: "cbor \<Rightarrow> bool" where
  "wf_cbor (CArray xs) = list_all wf_cbor xs"
| "wf_cbor (CMap m) =
     (distinct (map (\<lambda>kv. as_key (fst kv)) m) \<and>
      list_all (\<lambda>kv. wf_cbor (fst kv) \<and> wf_cbor (snd kv)) m)"
| "wf_cbor (CInt i) = True"
| "wf_cbor (CBytes b) = True"
| "wf_cbor (CText s) = True"
| "wf_cbor (CBool b) = True"
| "wf_cbor CNull = True"

text \<open>
  Every exception the modelled code can raise is a value of \<open>error\<close>. The first six are
  Python's and cbor2's own; \<open>SignatureVerificationFailed\<close> is the exception
  \<open>protocol.py\<close> imports from \<open>lib.cose.cose\<close>; \<open>MalformedEdhoc\<close>, \<open>MalformedCose\<close> and
  \<open>DecryptionFailed\<close> are the names the specification gives to the failures of the
  message and COSE classes, whose code is not part of the sources.
\<close>

datatype error =
    CBORDecodeError
  | TypeError
  | IndexError
  | KeyError
  | ValueError
  | AttributeError
  | MalformedEdhoc
  | MalformedCose
  | DecryptionFailed
  | SignatureVerificationFailed

text \<open>Sequencing of a computation that may raise.\<close>

definition bind_err :: "error + 'a \<Rightarrow> ('a \<Rightarrow> error + 'b) \<Rightarrow> error + 'b" where
  "bind_err r f = (case r of Inl e \<Rightarrow> Inl e | Inr v \<Rightarrow> f v)"

text \<open>Python's \<open>xs[i]\<close> on a sequence: a negative index counts from the end.\<close>

definition seq_getitem :: "'a list \<Rightarrow> int \<Rightarrow> error + 'a" where
  "seq_getitem xs i =
     (if 0 \<le> i \<and> i < int (length xs) then Inr (xs ! nat i)
      else if i < 0 \<and> - int (length xs) \<le> i then Inr (xs ! nat (int (length xs) + i))
      else Inl IndexError)"

text \<open>
  Python's \<open>obj[k]\<close> for an integer \<open>k\<close> (every subscript of the modelled code is an
  integer constant) on a decoded CBOR value: a dict looks the key up, a list, byte
  string or text string is indexed, an integer, a boolean or \<open>None\<close> is not
  subscriptable.
\<close>

fun py_getitem :: "cbor \<Rightarrow> int \<Rightarrow> error + cbor" where
  "py_getitem (CMap m) k =
     (case find (\<lambda>kv. py_eq_int (fst kv) k) m of
        None \<Rightarrow> Inl KeyError
      | Some kv \<Rightarrow> Inr (snd kv))"
| "py_getitem (CArray xs) k = seq_getitem xs k"
| "py_getitem (CBytes bs) k = bind_err (seq_getitem bs k) (\<lambda>b. Inr (CInt (uint b)))"
| "py_getitem (CText s) k = bind_err (seq_getitem s k) (\<lambda>c. Inr (CText [c]))"
| "py_getitem (CInt n) k = Inl TypeError"
| "py_getitem (CBool b) k = Inl TypeError"
| "py_getitem CNull k = Inl TypeError"

text \<open>
  Python's tuple unpacking \<open>(a, b, c) = obj\<close>: the object is iterated (a dict yields its
  keys, a byte string its bytes as integers) and must yield exactly as many items as
  there are targets.
\<close>

fun py_iter :: "cbor \<Rightarrow> error + cbor list" where
  "py_iter (CArray xs) = Inr xs"
| "py_iter (CMap m) = Inr (map fst m)"
| "py_iter (CBytes bs) = Inr (map (\<lambda>b. CInt (uint b)) bs)"
| "py_iter (CText s) = Inr (map (\<lambda>c. CText [c]) s)"
| "py_iter (CInt n) = Inl TypeError"
| "py_iter (CBool b) = Inl TypeError"
| "py_iter CNull = Inl TypeError"

definition unpack :: "nat \<Rightarrow> cbor \<Rightarrow> error + cbor list" where
  "unpack n obj =
     bind_err (py_iter obj) (\<lambda>xs. if length xs = n then Inr xs else Inl ValueError)"

text \<open>
  Python's \<open>k in obj\<close> for an integer \<open>k\<close>: a dict is asked for the key, a list for an
  equal element, a byte string for the byte (an integer outside \<open>range(256)\<close> raises
  \<open>ValueError\<close>); a text string takes only strings; an integer, a boolean or \<open>None\<close> is
  not iterable.
\<close>

fun py_contains :: "int \<Rightarrow> cbor \<Rightarrow> error + bool" where
  "py_contains k (CMap m) = Inr (list_ex (\<lambda>kv. py_eq_int (fst kv) k) m)"
| "py_contains k (CArray xs) = Inr (list_ex (\<lambda>v. py_eq_int v k) xs)"
| "py_contains k (CBytes bs) =
     (if 0 \<le> k \<and> k < 256 then Inr (list_ex (\<lambda>b. uint b = k) bs) else Inl ValueError)"
| "py_contains k (CText s) = Inl TypeError"
| "py_contains k (CInt n) = Inl TypeError"
| "py_contains k (CBool b) = Inl TypeError"
| "py_contains k CNull = Inl TypeError"

text \<open>\<open>bytes.hex()\<close>: two lower-case hexadecimal digits per byte.\<close>

definition hexdigit :: "nat \<Rightarrow> char" where
  "hexdigit n = (''0123456789abcdef'' ! (n mod 16))"

definition hex :: "bytes \<Rightarrow> string" where
  "hex bs = concat (map (\<lambda>b. [hexdigit (unat b div 16), hexdigit (unat b mod 16)]) bs)"

section \<open>The primitives of the libraries\<close>

text \<open>
  The code calls three libraries whose functions are parameters of the model:
  \<open>cryptography\<close> (SHA-256, HKDF, ECDH on the NIST curves, and the AEAD behind
  Encrypt0), \<open>ecdsa\<close> (signing keys) and \<open>cbor2\<close> (\<open>dumps\<close>, \<open>loads\<close>). A private key is
  its secret number; an ECDH public key is its public numbers (curve, x, y).
\<close>

datatype curve = P_256 | P_384 | P_521

datatype ec_public = EcPublic curve int int

type_synonym ec_private = nat
type_synonym signing_key = nat
type_synonym verifying_key = nat

record prims =
  sha256 :: "bytes \<Rightarrow> bytes"
  hkdf_derive :: "bytes \<Rightarrow> nat \<Rightarrow> bytes \<Rightarrow> bytes"
  ec_public_key :: "ec_private \<Rightarrow> ec_public"
  ecdh_exchange :: "ec_private \<Rightarrow> ec_public \<Rightarrow> error + bytes"
  load_elliptic_curve_public_numbers :: "ec_public \<Rightarrow> bool"
  aead_encrypt :: "bytes \<Rightarrow> bytes \<Rightarrow> bytes \<Rightarrow> bytes \<Rightarrow> bytes"
  aead_decrypt :: "bytes \<Rightarrow> bytes \<Rightarrow> bytes \<Rightarrow> bytes \<Rightarrow> bytes option"
  get_verifying_key :: "signing_key \<Rightarrow> verifying_key"
  ecdsa_sign :: "signing_key \<Rightarrow> nat \<Rightarrow> bytes \<Rightarrow> bytes"
  ecdsa_verify :: "verifying_key \<Rightarrow> bytes \<Rightarrow> bytes \<Rightarrow> bool"
  dumps :: "cbor \<Rightarrow> bytes"
  loads :: "bytes \<Rightarrow> cbor option"

text \<open>
  \<open>hkdf_derive K ikm n info\<close> is \<open>HKDF(SHA256, length=n, salt=None, info).derive(ikm)\<close>;
  \<open>aead_encrypt K key nonce data aad\<close> and \<open>aead_decrypt K key nonce data aad\<close> are the
  AEAD of Encrypt0 (\<open>None\<close>: the tag does not match); \<open>ecdsa_sign K sk k digest\<close> signs
  with the fresh secret \<open>k\<close> the library draws for every signature; \<open>loads\<close> is \<open>None\<close>
  where cbor2 raises.

  What one call draws from \<open>os.urandom\<close> and from the key generators is an argument
  of the modelled method.
\<close>

record entropy =
  urandom_2 :: bytes
  urandom_8 :: bytes
  generate_private_key :: ec_private
  sign_k :: nat

section \<open>COSE keys (\<open>lib/edhoc/util.py\<close>)\<close>

text \<open>
  Modelled from the spec: the constants of \<open>lib.cose.constants.Key\<close>, whose module is
  not part of the sources. The specification gives the EC2 key map as
  \<open>{1: 2 (kty=EC2), -1: crv, -2: x, -3: y}\<close> with COSE-registered labels; the curve
  identifiers are the registered ones (P-256 is 1, P-384 is 2, P-521 is 3).
\<close>

definition KTY :: int where "KTY = 1"
definition EC2 :: int where "EC2 = 2"
definition CRV :: int where "CRV = - 1"
definition X :: int where "X = - 2"
definition Y :: int where "Y = - 3"

fun Curve :: "curve \<Rightarrow> int" where
  "Curve P_256 = 1"
| "Curve P_384 = 2"
| "Curve P_521 = 3"

text \<open>
  \<open>_ecdh_names[params.curve.name]\<close> is \<open>Curve\<close> of the key's curve; \<open>_ecdh_curves[c]\<close>
  is the lookup below: a key that is not in the table raises \<open>KeyError\<close>, an unhashable
  one \<open>TypeError\<close>. \<open>int_value\<close> is the integer a value is for \<open>isinstance(v, int)\<close>.
\<close>

fun ecdh_curves :: "cbor \<Rightarrow> error + curve" where
  "ecdh_curves (CArray xs) = Inl TypeError"
| "ecdh_curves (CMap m) = Inl TypeError"
| "ecdh_curves c =
     (if py_eq_int c (Curve P_256) then Inr P_256
      else if py_eq_int c (Curve P_384) then Inr P_384
      else if py_eq_int c (Curve P_521) then Inr P_521
      else Inl KeyError)"

fun int_value :: "cbor \<Rightarrow> int option" where
  "int_value (CInt i) = Some i"
| "int_value (CBool b) = Some (if b then 1 else 0)"
| "int_value v = None"

fun ecdh_key_to_cose :: "ec_public \<Rightarrow> cbor" where
  "ecdh_key_to_cose (EcPublic c x y) =
     CMap [(CInt KTY, CInt EC2), (CInt CRV, CInt (Curve c)), (CInt X, CInt x), (CInt Y, CInt y)]"

text \<open>\<open>ecdh_key_to_cose(key, encode=True)\<close>.\<close>

definition ecdh_key_to_cose_encoded :: "prims \<Rightarrow> ec_public \<Rightarrow> bytes" where
  "ecdh_key_to_cose_encoded K key = dumps K (ecdh_key_to_cose key)"

text \<open>
  \<open>ecdh_cose_to_key(ckey)\<close>: \<open>loads\<close> wants bytes; the four subscripts may raise;
  \<open>EllipticCurvePublicNumbers\<close> wants integers; loading the numbers raises \<open>ValueError\<close>
  for a point that is not on the curve.
\<close>

definition ecdh_cose_to_key :: "prims \<Rightarrow> cbor \<Rightarrow> error + ec_public" where
  "ecdh_cose_to_key K ckey =
     (case ckey of
        CBytes b \<Rightarrow>
          (case loads K b of
             None \<Rightarrow> Inl CBORDecodeError
           | Some decoded \<Rightarrow>
               bind_err (py_getitem decoded KTY) (\<lambda>kty.
               bind_err (py_getitem decoded CRV) (\<lambda>c.
               bind_err (ecdh_curves c) (\<lambda>curve.
               bind_err (py_getitem decoded X) (\<lambda>x.
               bind_err (py_getitem decoded Y) (\<lambda>y.
                 (case (int_value x, int_value y) of
                    (Some xi, Some yi) \<Rightarrow>
                      if load_elliptic_curve_public_numbers K (EcPublic curve xi yi)
                      then Inr (EcPublic curve xi yi) else Inl ValueError
                  | _ \<Rightarrow> Inl TypeError)))))))
      | _ \<Rightarrow> Inl TypeError)"

section \<open>COSE Sign1 and Encrypt0\<close>

text \<open>
  Modelled from the spec: \<open>lib.cose.Signature1Message\<close>, whose code is not part of the
  sources. Its section 4.2: the signature is over
  \<open>Sig_structure = ["Signature1", protected, external_aad, payload]\<close>, hashed with
  SHA-256; the serialized form is the array
  \<open>[protected_bstr, unprotected_map, payload, signature]\<close>; \<open>verify\<close> rebuilds the
  structure from the protected bytes as received and returns the payload. The
  unprotected header is not covered by the signature.
\<close>

definition Sig_structure :: "prims \<Rightarrow> bytes \<Rightarrow> bytes \<Rightarrow> bytes \<Rightarrow> bytes" where
  "Sig_structure K protected external_aad payload =
     dumps K (CArray [CText ''Signature1'', CBytes protected, CBytes external_aad,
                      CBytes payload])"

definition sign1_serialize_signed ::
  "prims \<Rightarrow> signing_key \<Rightarrow> nat \<Rightarrow> bytes \<Rightarrow> cbor \<Rightarrow> bytes \<Rightarrow> bytes \<Rightarrow> bytes" where
  "sign1_serialize_signed K sk k protected unprotected payload external_aad =
     dumps K (CArray [CBytes protected, unprotected, CBytes payload,
       CBytes (ecdsa_sign K sk k (sha256 K (Sig_structure K protected external_aad payload)))])"

definition sign1_verify :: "prims \<Rightarrow> bytes \<Rightarrow> verifying_key \<Rightarrow> bytes \<Rightarrow> error + bytes" where
  "sign1_verify K serialized vk external_aad =
     (case loads K serialized of
        None \<Rightarrow> Inl CBORDecodeError
      | Some (CArray [CBytes protected, unprotected, CBytes payload, CBytes signature]) \<Rightarrow>
          if ecdsa_verify K vk (sha256 K (Sig_structure K protected external_aad payload))
               signature
          then Inr payload else Inl SignatureVerificationFailed
      | Some other \<Rightarrow> Inl MalformedCose)"

text \<open>
  Modelled from the spec: \<open>lib.cose.Encrypt0Message\<close>, whose code is not part of the
  sources. Its sections 3 and 4.3: the AEAD's associated data is the encoding of
  \<open>Enc_structure = ["Encrypt0", protected, external_aad]\<close>; the serialized form is
  \<open>[protected_bstr, unprotected_map, ciphertext]\<close>, the unprotected header carrying the
  algorithm label (10) and the IV under their COSE header labels (1 and 5);
  \<open>decrypt\<close> fails with \<open>DecryptionFailed\<close> on a tag mismatch. The protected header
  is empty.
\<close>

definition Enc_structure :: "prims \<Rightarrow> bytes \<Rightarrow> bytes \<Rightarrow> bytes" where
  "Enc_structure K protected external_aad =
     dumps K (CArray [CText ''Encrypt0'', CBytes protected, CBytes external_aad])"

definition encrypt0_serialize :: "prims \<Rightarrow> bytes \<Rightarrow> bytes \<Rightarrow> bytes \<Rightarrow> bytes \<Rightarrow> bytes" where
  "encrypt0_serialize K payload key iv external_aad =
     dumps K (CArray [CBytes [], CMap [(CInt 1, CInt 10), (CInt 5, CBytes iv)],
       CBytes (aead_encrypt K key iv payload (Enc_structure K [] external_aad))])"

definition encrypt0_decrypt :: "prims \<Rightarrow> cbor \<Rightarrow> bytes \<Rightarrow> bytes \<Rightarrow> bytes \<Rightarrow> error + bytes" where
  "encrypt0_decrypt K serialized key iv external_aad =
     (case serialized of
        CBytes b \<Rightarrow>
          (case loads K b of
             None \<Rightarrow> Inl CBORDecodeError
           | Some (CArray [CBytes protected, unprotected, CBytes ciphertext]) \<Rightarrow>
               (case aead_decrypt K key iv ciphertext (Enc_structure K protected external_aad) of
                  None \<Rightarrow> Inl DecryptionFailed
                | Some plaintext \<Rightarrow> Inr plaintext)
           | Some other \<Rightarrow> Inl MalformedCose)
      | _ \<Rightarrow> Inl TypeError)"

section \<open>EDHOC messages\<close>

text \<open>
  Modelled from the spec: the tags of \<open>lib.edhoc.messages\<close>, whose module is not part
  of the sources. Its section 4.4: every message is a CBOR array whose first element
  is the tag 1, 2 or 3.
\<close>

definition EDHOC_MSG_1 :: int where "EDHOC_MSG_1 = 1"
definition EDHOC_MSG_2 :: int where "EDHOC_MSG_2 = 2"
definition EDHOC_MSG_3 :: int where "EDHOC_MSG_3 = 3"

text \<open>
  Modelled from the spec: the class \<open>Message1\<close> of \<open>lib.edhoc.messages\<close>. Section 4.4:
  \<open>MSG1 = [1, session_id_u, nonce_u, G_X]\<close>. Sections 3 and 9: a message that was
  received keeps the bytes it came in (\<open>bytes_object\<close>) and is never encoded again;
  \<open>bytes(message)\<close> is those bytes, or the encoding of the fields of a message built
  locally. The ephemeral key travels as a byte string holding the encoded COSE key:
  \<open>continue_edhoc\<close> hands the field it receives to \<open>ecdh_cose_to_key\<close>, which decodes
  bytes.
\<close>

record message1 =
  m1_session_id :: cbor
  m1_nonce :: cbor
  m1_ephemeral_key :: ec_public
  m1_bytes_object :: "bytes option"

text \<open>Modelled from the spec: \<open>Message1(session_id, nonce, ephemeral_key)\<close>.\<close>

definition Message1 :: "bytes \<Rightarrow> bytes \<Rightarrow> ec_public \<Rightarrow> message1" where
  "Message1 session_id nonce ephemeral_key =
     \<lparr>m1_session_id = CBytes session_id, m1_nonce = CBytes nonce,
      m1_ephemeral_key = ephemeral_key, m1_bytes_object = None\<rparr>"

text \<open>Modelled from the spec: \<open>bytes(message1)\<close>, the wire form of section 4.4.\<close>

definition message1_bytes :: "prims \<Rightarrow> message1 \<Rightarrow> bytes" where
  "message1_bytes K m =
     (case m1_bytes_object m of
        Some b \<Rightarrow> b
      | None \<Rightarrow>
          dumps K (CArray [CInt EDHOC_MSG_1, m1_session_id m, m1_nonce m,
                           CBytes (ecdh_key_to_cose_encoded K (m1_ephemeral_key m))]))"

text \<open>
  Modelled from the spec: \<open>Message1.from_bytes\<close>. A byte string that is not the
  encoding of a four-element array is \<open>MalformedEdhoc\<close> (section 7); the key is read
  with \<open>ecdh_cose_to_key\<close>.
\<close>

definition message1_from_bytes :: "prims \<Rightarrow> bytes \<Rightarrow> error + message1" where
  "message1_from_bytes K b =
     (case loads K b of
        None \<Rightarrow> Inl CBORDecodeError
      | Some (CArray [tag, session_id, nonce, g_x]) \<Rightarrow>
          bind_err (ecdh_cose_to_key K g_x) (\<lambda>key.
            Inr \<lparr>m1_session_id = session_id, m1_nonce = nonce, m1_ephemeral_key = key,
                 m1_bytes_object = Some b\<rparr>)
      | Some other \<Rightarrow> Inl MalformedEdhoc)"

text \<open>
  Modelled from the spec: the class \<open>Message2\<close> of \<open>lib.edhoc.messages\<close>. Section 4.4:
  \<open>MSG2 = [2, session_id_u, session_id_v, nonce_v, G_Y, ciphertext_2]\<close>, where
  \<open>ciphertext_2\<close> is an Encrypt0 of an inner Sign1 with an empty payload. The object
  keeps the hash \<open>aad_2\<close> computed, the inner Sign1 and the ciphertext; one built from
  received bytes reads its ciphertext from them.
\<close>

record message2 =
  m2_session_id :: cbor
  m2_peer_session_id :: cbor
  m2_peer_nonce :: cbor
  m2_peer_ephemeral_key :: ec_public
  m2_aad_2 :: "bytes option"
  m2_signature :: "bytes option"
  m2_ciphertext :: "bytes option"
  m2_bytes_object :: "bytes option"

text \<open>
  Modelled from the spec:
  \<open>Message2(session_id, peer_session_id, peer_nonce, peer_ephemeral_key, bytes_object)\<close>.
\<close>

definition Message2 ::
  "prims \<Rightarrow> cbor \<Rightarrow> cbor \<Rightarrow> cbor \<Rightarrow> ec_public \<Rightarrow> bytes option \<Rightarrow> message2" where
  "Message2 K session_id peer_session_id peer_nonce peer_ephemeral_key bytes_object =
     \<lparr>m2_session_id = session_id, m2_peer_session_id = peer_session_id,
      m2_peer_nonce = peer_nonce, m2_peer_ephemeral_key = peer_ephemeral_key,
      m2_aad_2 = None, m2_signature = None,
      m2_ciphertext =
        (case bytes_object of
           None \<Rightarrow> None
         | Some b \<Rightarrow>
             (case loads K b of
                Some (CArray [t, s, ps, n, g, CBytes c]) \<Rightarrow> Some c
              | _ \<Rightarrow> None)),
      m2_bytes_object = bytes_object\<rparr>"

text \<open>
  Modelled from the spec: \<open>data_2\<close>, the leading fields of MSG2 up to but not including
  \<open>ciphertext_2\<close> (section 4.5).
\<close>

definition data_2 :: "prims \<Rightarrow> message2 \<Rightarrow> bytes" where
  "data_2 K m =
     dumps K (CArray [CInt EDHOC_MSG_2, m2_session_id m, m2_peer_session_id m, m2_peer_nonce m,
                      CBytes (ecdh_key_to_cose_encoded K (m2_peer_ephemeral_key m))])"

text \<open>
  Modelled from the spec: \<open>Message2.aad_2(hash_func, message1)\<close>, the hash
  \<open>TH_2 = SHA-256(MSG1 || data_2)\<close> of section 4.5, kept in the object.
\<close>

definition aad_2 ::
  "prims \<Rightarrow> (bytes \<Rightarrow> bytes) \<Rightarrow> message2 \<Rightarrow> message1 \<Rightarrow> bytes \<times> message2" where
  "aad_2 K hash_func m m1 =
     (let th_2 = hash_func (message1_bytes K m1 @ data_2 K m)
      in (th_2, m\<lparr>m2_aad_2 := Some th_2\<rparr>))"

text \<open>
  Modelled from the spec: \<open>Message2.sign(sk, aad)\<close>. The inner Sign1 has an empty
  payload, empty headers and \<open>aad\<close> as its external data (sections 4.4 and 4.5).
\<close>

definition message2_sign :: "prims \<Rightarrow> signing_key \<Rightarrow> nat \<Rightarrow> bytes \<Rightarrow> message2 \<Rightarrow> message2" where
  "message2_sign K sk k aad m =
     m\<lparr>m2_signature := Some (sign1_serialize_signed K sk k [] (CMap []) [] aad)\<rparr>"

text \<open>
  Modelled from the spec: \<open>Message2.encrypt(key, iv)\<close>. \<open>ciphertext_2\<close> is the Encrypt0
  of the inner Sign1 with \<open>TH_2\<close> as external data (section 4.5); a message that was
  not signed, or whose hash was not computed, has nothing to encrypt.
\<close>

definition message2_encrypt :: "prims \<Rightarrow> bytes \<Rightarrow> bytes \<Rightarrow> message2 \<Rightarrow> error + message2" where
  "message2_encrypt K key iv m =
     (case (m2_signature m, m2_aad_2 m) of
        (Some sig_v, Some th_2) \<Rightarrow>
          Inr (m\<lparr>m2_ciphertext := Some (encrypt0_serialize K sig_v key iv th_2)\<rparr>)
      | _ \<Rightarrow> Inl TypeError)"

text \<open>
  Modelled from the spec: \<open>bytes(message2)\<close>, the wire form of section 4.4 (a message
  that is not encrypted yet has \<open>None\<close> in the place of the ciphertext).
\<close>

definition message2_bytes :: "prims \<Rightarrow> message2 \<Rightarrow> bytes" where
  "message2_bytes K m =
     (case m2_bytes_object m of
        Some b \<Rightarrow> b
      | None \<Rightarrow>
          dumps K (CArray [CInt EDHOC_MSG_2, m2_session_id m, m2_peer_session_id m, m2_peer_nonce m,
                           CBytes (ecdh_key_to_cose_encoded K (m2_peer_ephemeral_key m)),
                           (case m2_ciphertext m of Some c \<Rightarrow> CBytes c | None \<Rightarrow> CNull)]))"

text \<open>
  Modelled from the spec: the class \<open>Message3\<close> of \<open>lib.edhoc.messages\<close>. Section 4.4:
  \<open>MSG3 = [3, session_id_v, ciphertext_3]\<close>, where \<open>ciphertext_3\<close> is an Encrypt0 of an
  inner Sign1. The object keeps the hash \<open>_aad_3\<close> (the attribute \<open>continue_edhoc\<close>
  prints), the inner Sign1 and the ciphertext.
\<close>

record message3 =
  m3_peer_session_id :: cbor
  m3_aad_3 :: "bytes option"
  m3_signature :: "bytes option"
  m3_ciphertext :: "bytes option"
  m3_bytes_object :: "bytes option"

text \<open>Modelled from the spec: \<open>Message3(peer_session_id, bytes_object)\<close>.\<close>

definition Message3 :: "prims \<Rightarrow> cbor \<Rightarrow> bytes option \<Rightarrow> message3" where
  "Message3 K peer_session_id bytes_object =
     \<lparr>m3_peer_session_id = peer_session_id, m3_aad_3 = None, m3_signature = None,
      m3_ciphertext =
        (case bytes_object of
           None \<Rightarrow> None
         | Some b \<Rightarrow>
             (case loads K b of
                Some (CArray [t, ps, CBytes c]) \<Rightarrow> Some c
              | _ \<Rightarrow> None)),
      m3_bytes_object = bytes_object\<rparr>"

text \<open>
  Modelled from the spec: \<open>Message3.aad_3(hash_func, message1, message2)\<close>, the hash
  \<open>TH_3 = SHA-256(TH_2 || ciphertext_2)\<close> of section 4.5, kept in the object. A session
  that has no first or second message yet, or a second message without ciphertext,
  has nothing to hash.
\<close>

definition aad_3 ::
  "prims \<Rightarrow> (bytes \<Rightarrow> bytes) \<Rightarrow> message3 \<Rightarrow> message1 option \<Rightarrow> message2 option \<Rightarrow>
   error + bytes \<times> message3" where
  "aad_3 K hash_func m m1 m2 =
     (case (m1, m2) of
        (Some msg1, Some msg2) \<Rightarrow>
          (case m2_ciphertext msg2 of
             Some ciphertext_2 \<Rightarrow>
               (let th_3 = hash_func (fst (aad_2 K hash_func msg2 msg1) @ ciphertext_2)
                in Inr (th_3, m\<lparr>m3_aad_3 := Some th_3\<rparr>))
           | None \<Rightarrow> Inl TypeError)
      | _ \<Rightarrow> Inl TypeError)"

text \<open>
  Modelled from the spec: \<open>Message3.sign(sk, aad)\<close>. The inner Sign1 has an empty
  payload, empty headers and \<open>aad\<close> as its external data.
\<close>

definition message3_sign :: "prims \<Rightarrow> signing_key \<Rightarrow> nat \<Rightarrow> bytes \<Rightarrow> message3 \<Rightarrow> message3" where
  "message3_sign K sk k aad m =
     m\<lparr>m3_signature := Some (sign1_serialize_signed K sk k [] (CMap []) [] aad)\<rparr>"

text \<open>
  Modelled from the spec: \<open>Message3.encrypt(key, iv)\<close>. \<open>ciphertext_3\<close> is the Encrypt0
  of the inner Sign1 with \<open>TH_3\<close> as external data.
\<close>

definition message3_encrypt :: "prims \<Rightarrow> bytes \<Rightarrow> bytes \<Rightarrow> message3 \<Rightarrow> error + message3" where
  "message3_encrypt K key iv m =
     (case (m3_signature m, m3_aad_3 m) of
        (Some sig_u, Some th_3) \<Rightarrow>
          Inr (m\<lparr>m3_ciphertext := Some (encrypt0_serialize K sig_u key iv th_3)\<rparr>)
      | _ \<Rightarrow> Inl TypeError)"

text \<open>Modelled from the spec: \<open>bytes(message3)\<close>, the wire form of section 4.4.\<close>

definition message3_bytes :: "prims \<Rightarrow> message3 \<Rightarrow> bytes" where
  "message3_bytes K m =
     (case m3_bytes_object m of
        Some b \<Rightarrow> b
      | None \<Rightarrow>
          dumps K (CArray [CInt EDHOC_MSG_3, m3_peer_session_id m,
                           (case m3_ciphertext m of Some c \<Rightarrow> CBytes c | None \<Rightarrow> CNull)]))"

section \<open>The EDHOC session (\<open>lib/edhoc/protocol.py\<close>)\<close>

definition derive_key :: "prims \<Rightarrow> bytes \<Rightarrow> nat \<Rightarrow> bytes \<Rightarrow> bytes" where
  "derive_key K input_key len context_info = hkdf_derive K input_key len context_info"

definition cose_kdf_context :: "prims \<Rightarrow> string \<Rightarrow> nat \<Rightarrow> bytes \<Rightarrow> bytes" where
  "cose_kdf_context K algorithm_id key_length other =
     dumps K (CArray [CText algorithm_id,
                      CArray [CNull, CNull, CNull],
                      CArray [CNull, CNull, CNull],
                      CArray [CInt (int key_length), CBytes [], CBytes other]])"

definition message_digest :: "prims \<Rightarrow> bytes \<Rightarrow> bytes" where
  "message_digest K message = sha256 K message"

record OscoreContext =
  master_secret :: bytes
  master_salt :: bytes

text \<open>\<open>EdhocSession.Session\<close>; \<open>id'\<close> is its attribute \<open>id\<close>.\<close>

record Session =
  id' :: "bytes option"
  shared_secret :: "bytes option"
  private_key :: "ec_private option"
  public_key :: "ec_public option"

definition Session_init :: "bytes option \<Rightarrow> bytes option \<Rightarrow> Session" where
  "Session_init session_id secret =
     \<lparr>id' = session_id, shared_secret = secret, private_key = None, public_key = None\<rparr>"

text \<open>\<open>EdhocSession\<close>; \<open>oscore_context_cached\<close> is its attribute \<open>_oscore_context\<close>.\<close>

record EdhocSession =
  session :: Session
  message1 :: "message1 option"
  message2 :: "message2 option"
  message3 :: "message3 option"
  oscore_context_cached :: "OscoreContext option"

text \<open>
  The property \<open>oscore_context\<close>: computed on the first access and kept. An attribute
  that is still \<open>None\<close> makes the concatenation or the key derivation raise
  \<open>TypeError\<close>.
\<close>

definition oscore_context ::
  "prims \<Rightarrow> 'a EdhocSession_scheme \<Rightarrow> (error + OscoreContext) \<times> 'a EdhocSession_scheme" where
  "oscore_context K self =
     (case oscore_context_cached self of
        Some c \<Rightarrow> (Inr c, self)
      | None \<Rightarrow>
          (case (message1 self, message2 self, message3 self, shared_secret (session self)) of
             (Some m1, Some m2, Some m3, Some z) \<Rightarrow>
               (let exchange_hash =
                      message_digest K
                        (message_digest K (message1_bytes K m1 @ message2_bytes K m2)
                         @ message3_bytes K m3);
                    secret = derive_key K z (128 div 8)
                      (cose_kdf_context K ''EDHOC OSCORE Master Secret'' (128 div 8) exchange_hash);
                    salt = derive_key K z (56 div 8)
                      (cose_kdf_context K ''EDHOC OSCORE Master Salt'' (56 div 8) exchange_hash);
                    c = \<lparr>master_secret = secret, master_salt = salt\<rparr>
                in (Inr c, self\<lparr>oscore_context_cached := Some c\<rparr>))
           | _ \<Rightarrow> (Inl TypeError, self)))"

text \<open>
  \<open>encrypt\<close> and \<open>decrypt\<close> read the property twice, first for the IV and then for the
  key. \<open>serialize\<close> is called without external data and \<open>decrypt\<close> with \<open>b''\<close>.
\<close>

definition encrypt ::
  "prims \<Rightarrow> 'a EdhocSession_scheme \<Rightarrow> bytes \<Rightarrow> (error + bytes) \<times> 'a EdhocSession_scheme" where
  "encrypt K self payload =
     (case oscore_context K self of
        (Inl e, self1) \<Rightarrow> (Inl e, self1)
      | (Inr c1, self1) \<Rightarrow>
          (case oscore_context K self1 of
             (Inl e, self2) \<Rightarrow> (Inl e, self2)
           | (Inr c2, self2) \<Rightarrow>
               (Inr (encrypt0_serialize K payload (master_secret c2) (master_salt c1) []),
                self2)))"

definition decrypt ::
  "prims \<Rightarrow> 'a EdhocSession_scheme \<Rightarrow> bytes \<Rightarrow> (error + bytes) \<times> 'a EdhocSession_scheme" where
  "decrypt K self ciphertext =
     (case oscore_context K self of
        (Inl e, self1) \<Rightarrow> (Inl e, self1)
      | (Inr c1, self1) \<Rightarrow>
          (case oscore_context K self1 of
             (Inl e, self2) \<Rightarrow> (Inl e, self2)
           | (Inr c2, self2) \<Rightarrow>
               (encrypt0_decrypt K (CBytes ciphertext) (master_secret c2) (master_salt c1) [],
                self2)))"

subsection \<open>Server\<close>

record Server = EdhocSession +
  sk :: signing_key
  vk :: verifying_key
  client_id :: verifying_key

definition Server_init :: "prims \<Rightarrow> signing_key \<Rightarrow> verifying_key \<Rightarrow> Server" where
  "Server_init K key peer =
     \<lparr>session = Session_init None None, message1 = None, message2 = None, message3 = None,
      oscore_context_cached = None,
      sk = key, vk = get_verifying_key K key, client_id = peer\<rparr>"

text \<open>What a handler returns: a second message, \<open>MessageOk()\<close>, or \<open>None\<close>.\<close>

datatype reply = Reply2 message2 | MessageOk | PyNone

text \<open>
  A method returns its result or the exception it raised, the object as the call left
  it, and the lines it printed.
\<close>

definition on_msg_1 ::
  "prims \<Rightarrow> entropy \<Rightarrow> Server \<Rightarrow> bytes \<Rightarrow> (error + reply) \<times> Server \<times> string list" where
  "on_msg_1 K rnd self message =
     (case message1_from_bytes K message of
        Inl e \<Rightarrow> (Inl e, self, [])
      | Inr m1 \<Rightarrow>
          (let self1 = self\<lparr>message1 := Some m1\<rparr>;
               session_id = urandom_2 rnd;
               nonce = urandom_8 rnd;
               session_key = generate_private_key rnd;
               public_session_key = ec_public_key K session_key;
               peer_session_key = m1_ephemeral_key m1;
               peer_session_id = m1_session_id m1
           in case ecdh_exchange K session_key peer_session_key of
                Inl e \<Rightarrow> (Inl e, self1, [])
              | Inr ecdh_shared_secret \<Rightarrow>
                  (let self2 = self1\<lparr>session := (session self1)
                         \<lparr>id' := Some session_id, private_key := Some session_key,
                          public_key := Some public_session_key,
                          shared_secret := Some ecdh_shared_secret\<rparr>\<rparr>;
                       m2 = Message2 K peer_session_id (CBytes session_id) (CBytes nonce)
                              public_session_key None;
                       (aad2, m2a) = aad_2 K (message_digest K) m2 m1;
                       m2s = message2_sign K (sk self) (sign_k rnd) aad2 m2a;
                       k_2 = derive_key K ecdh_shared_secret 16
                               (cose_kdf_context K ''AES-CCM-64-64-128'' 16 aad2);
                       iv_2 = derive_key K ecdh_shared_secret 7
                               (cose_kdf_context K ''IV-Generation'' 7 aad2)
                   in case message2_encrypt K k_2 iv_2 m2s of
                        Inl e \<Rightarrow> (Inl e, self2\<lparr>message2 := Some m2s\<rparr>, [])
                      | Inr m2e \<Rightarrow>
                          (Inr (Reply2 m2e), self2\<lparr>message2 := Some m2e\<rparr>,
                           [''Server AAD2 = '' @ hex aad2,
                            ''Server K2 = '' @ hex k_2,
                            ''Server IV2 = '' @ hex iv_2]))))"

definition on_msg_3 ::
  "prims \<Rightarrow> Server \<Rightarrow> bytes \<Rightarrow> (error + reply) \<times> Server \<times> string list" where
  "on_msg_3 K self message =
     (case loads K message of
        None \<Rightarrow> (Inl CBORDecodeError, self, [])
      | Some decoded \<Rightarrow>
          (case unpack 3 decoded of
             Inr [tag, p_sess_id, enc_3] \<Rightarrow>
               (let m3 = Message3 K p_sess_id (Some message);
                    self1 = self\<lparr>message3 := Some m3\<rparr>
                in case aad_3 K (message_digest K) m3 (message1 self1) (message2 self1) of
                     Inl e \<Rightarrow> (Inl e, self1, [])
                   | Inr (aad3, m3a) \<Rightarrow>
                       (let self2 = self1\<lparr>message3 := Some m3a\<rparr>
                        in case shared_secret (session self2) of
                             None \<Rightarrow> (Inl TypeError, self2, [])
                           | Some z \<Rightarrow>
                               (let k_3 = derive_key K z 16
                                            (cose_kdf_context K ''AES-CCM-64-64-128'' 16 aad3);
                                    iv_3 = derive_key K z 7
                                             (cose_kdf_context K ''IV-Generation'' 7 aad3)
                                in case encrypt0_decrypt K enc_3 k_3 iv_3 aad3 of
                                     Inl e \<Rightarrow> (Inl e, self2, [])
                                   | Inr sig_u \<Rightarrow>
                                       (case sign1_verify K sig_u (client_id self2) aad3 of
                                          Inl e \<Rightarrow> (Inl e, self2, [])
                                        | Inr payload \<Rightarrow> (Inr MessageOk, self2, [])))))
           | Inr other \<Rightarrow> (Inl ValueError, self, [])
           | Inl e \<Rightarrow> (Inl e, self, [])))"

definition on_receive ::
  "prims \<Rightarrow> entropy \<Rightarrow> Server \<Rightarrow> bytes \<Rightarrow> (error + reply) \<times> Server \<times> string list" where
  "on_receive K rnd self message =
     (let received = ''Server Received:  '' @ hex message
      in case loads K message of
           None \<Rightarrow> (Inl CBORDecodeError, self, [received])
         | Some decoded \<Rightarrow>
             (case py_getitem decoded 0 of
                Inl e \<Rightarrow> (Inl e, self, [received])
              | Inr tag \<Rightarrow>
                  if py_eq_int tag EDHOC_MSG_1 then
                    (case on_msg_1 K rnd self message of
                       (r, self', out) \<Rightarrow> (r, self', received # out))
                  else if py_eq_int tag EDHOC_MSG_3 then
                    (case on_msg_3 K self message of
                       (r, self', out) \<Rightarrow> (r, self', received # out))
                  else (Inr PyNone, self, [received])))"

subsection \<open>Client\<close>

record Client = EdhocSession +
  sk :: signing_key
  vk :: verifying_key
  server_id :: verifying_key

definition Client_init :: "prims \<Rightarrow> signing_key \<Rightarrow> verifying_key \<Rightarrow> Client" where
  "Client_init K key peer =
     \<lparr>session = Session_init None None, message1 = None, message2 = None, message3 = None,
      oscore_context_cached = None,
      sk = key, vk = get_verifying_key K key, server_id = peer\<rparr>"

definition initiate_edhoc :: "prims \<Rightarrow> entropy \<Rightarrow> Client \<Rightarrow> message1 \<times> Client" where
  "initiate_edhoc K rnd self =
     (let session_id = urandom_2 rnd;
          nonce = urandom_8 rnd;
          session_key = generate_private_key rnd;
          public_session_key = ec_public_key K session_key;
          self1 = self\<lparr>session := (session self)
                    \<lparr>id' := Some session_id, private_key := Some session_key,
                     public_key := Some public_session_key\<rparr>\<rparr>;
          m1 = Message1 session_id nonce public_session_key
      in (m1, self1\<lparr>message1 := Some m1\<rparr>))"

text \<open>
  \<open>continue_edhoc\<close>. A session that was not initiated has no private key
  (\<open>AttributeError\<close>); the hash \<open>aad_2\<close> needs the first message.
\<close>

definition continue_edhoc ::
  "prims \<Rightarrow> entropy \<Rightarrow> Client \<Rightarrow> bytes \<Rightarrow> (error + message3) \<times> Client \<times> string list" where
  "continue_edhoc K rnd self msg2 =
     (case loads K msg2 of
        None \<Rightarrow> (Inl CBORDecodeError, self, [])
      | Some decoded \<Rightarrow>
     (case unpack 6 decoded of
        Inl e \<Rightarrow> (Inl e, self, [])
      | Inr [tag, sess_id, p_sess_id, p_nonce, p_eph_cose, enc_2] \<Rightarrow>
     (case ecdh_cose_to_key K p_eph_cose of
        Inl e \<Rightarrow> (Inl e, self, [])
      | Inr p_eph_key \<Rightarrow>
     (case private_key (session self) of
        None \<Rightarrow> (Inl AttributeError, self, [])
      | Some session_key \<Rightarrow>
     (case ecdh_exchange K session_key p_eph_key of
        Inl e \<Rightarrow> (Inl e, self, [])
      | Inr ecdh_shared_secret \<Rightarrow>
     (let self1 = self\<lparr>session := (session self)\<lparr>shared_secret := Some ecdh_shared_secret\<rparr>\<rparr>;
          m2 = Message2 K sess_id p_sess_id p_nonce p_eph_key (Some msg2);
          self2 = self1\<lparr>message2 := Some m2\<rparr>
      in case message1 self2 of
           None \<Rightarrow> (Inl TypeError, self2, [])
         | Some m1 \<Rightarrow>
     (let (aad2, m2a) = aad_2 K (message_digest K) m2 m1;
          self3 = self2\<lparr>message2 := Some m2a\<rparr>;
          k_2 = derive_key K ecdh_shared_secret 16
                  (cose_kdf_context K ''AES-CCM-64-64-128'' 16 aad2);
          iv_2 = derive_key K ecdh_shared_secret 7
                   (cose_kdf_context K ''IV-Generation'' 7 aad2);
          out2 = [''Client AAD2 = '' @ hex aad2,
                  ''Client K2 = '' @ hex k_2,
                  ''Client IV2 = '' @ hex iv_2]
      in case encrypt0_decrypt K enc_2 k_2 iv_2 aad2 of
           Inl e \<Rightarrow> (Inl e, self3, out2)
         | Inr sig_v \<Rightarrow>
     (case sign1_verify K sig_v (server_id self3) aad2 of
        Inl e \<Rightarrow> (Inl e, self3, out2)
      | Inr payload \<Rightarrow>
     (let m3 = Message3 K p_sess_id None;
          self4 = self3\<lparr>message3 := Some m3\<rparr>
      in case aad_3 K (message_digest K) m3 (message1 self4) (message2 self4) of
           Inl e \<Rightarrow> (Inl e, self4, out2)
         | Inr (aad3, m3a) \<Rightarrow>
     (let m3s = message3_sign K (sk self4) (sign_k rnd) aad3 m3a;
          k_3 = derive_key K ecdh_shared_secret 16
                  (cose_kdf_context K ''AES-CCM-64-64-128'' 16 aad3);
          iv_3 = derive_key K ecdh_shared_secret 7
                   (cose_kdf_context K ''IV-Generation'' 7 aad3)
      in case message3_encrypt K k_3 iv_3 m3s of
           Inl e \<Rightarrow> (Inl e, self4\<lparr>message3 := Some m3s\<rparr>, out2)
         | Inr m3e \<Rightarrow>
             (Inr m3e, self4\<lparr>message3 := Some m3e\<rparr>,
              out2 @ [''Client AAD3 = '' @ hex (case m3_aad_3 m3e of Some a \<Rightarrow> a | None \<Rightarrow> []),
                      ''Client K3 = '' @ hex k_3,
                      ''Client IV3 = '' @ hex iv_3])))))))))
      | Inr other \<Rightarrow> (Inl ValueError, self, [])))"

section \<open>One run of the protocol\<close>

text \<open>
  The run of \<open>test_context\<close>: the client initiates, the server receives the bytes of the
  first message, the client continues with the bytes of the second, the server
  receives the bytes of the third. The result is the two endpoints after a run in
  which the server answered \<open>MessageOk\<close>, and \<open>None\<close> for a run that stopped before.
\<close>

definition edhoc_run ::
  "prims \<Rightarrow> entropy \<Rightarrow> entropy \<Rightarrow> entropy \<Rightarrow> Client \<Rightarrow> Server \<Rightarrow> (Client \<times> Server) option" where
  "edhoc_run K rnd_c rnd_s rnd_c' c0 s0 =
     (case initiate_edhoc K rnd_c c0 of
        (msg1, c1) \<Rightarrow>
     (case on_receive K rnd_s s0 (message1_bytes K msg1) of
        (Inr (Reply2 msg2), s1, out1) \<Rightarrow>
          (case continue_edhoc K rnd_c' c1 (message2_bytes K msg2) of
             (Inr msg3, c2, out2) \<Rightarrow>
               (case on_receive K rnd_s s1 (message3_bytes K msg3) of
                  (Inr MessageOk, s2, out3) \<Rightarrow> Some (c2, s2)
                | _ \<Rightarrow> None)
           | _ \<Rightarrow> None)
      | _ \<Rightarrow> None))"

section \<open>The authorization server (\<open>as/__init__.py\<close>)\<close>

text \<open>
  The names of \<open>lib.cbor.constants.Keys\<close> (\<open>CK\<close> in the code). Their CBOR labels are
  integers (section 6 of the specification) in a module that is not part of the
  sources; the function from names to labels is a parameter.
\<close>

datatype key_name =
    GRANT_TYPE | CLIENT_ID | CLIENT_SECRET | AUD | SCOPE | CNF | ISS | IAT | EXP | CTI
  | ACCESS_TOKEN | TOKEN_TYPE | PROFILE | RS_CNF | TOKEN | TOKEN_TYPE_HINT | ACTIVE

text \<open>
  Modelled from the spec: \<open>Cose.COSE_KEY\<close> of \<open>lib.cose.constants\<close>, which is not part
  of the sources; section 6 gives \<open>cnf\<close> as the map \<open>{1: COSE_Key}\<close>.
\<close>

definition COSE_KEY :: int where "COSE_KEY = 1"

text \<open>
  \<open>lib.cose.CoseKey\<close> and \<open>lib.access_token.AccessToken\<close> are not part of the sources.
  A \<open>CoseKey\<close> object is represented by the key map it was read from; an access token
  is its claims and the key bound to it. What the absent classes compute (\<open>from_cose\<close>,
  \<open>encode\<close>, \<open>sign_and_export_self_contained\<close>, the reference under which the token
  registry files a token, and the encoded key of the resource server) are parameters.
\<close>

datatype CoseKey = CoseKey cbor

record AccessToken =
  claims :: "(cbor \<times> cbor) list"
  bound_key :: "CoseKey option"

record as_env =
  CK :: "key_name \<Rightarrow> int"
  from_cose :: "cbor \<Rightarrow> error + CoseKey"
  encode :: "CoseKey \<Rightarrow> cbor"
  sign_and_export_self_contained :: "AccessToken \<Rightarrow> signing_key \<Rightarrow> cbor"
  reference :: "AccessToken \<Rightarrow> cbor"
  rs_cnf :: cbor

text \<open>
  Modelled from the spec: the registries of \<open>as/client_registry.py\<close>,
  \<open>as/key_registry.py\<close> and \<open>as/token_registry.py\<close>, which are not part of the sources.
  Section 9: each is a store with insert and lookup. \<open>check_secret\<close> holds when the
  client is registered with that secret; \<open>get_token\<close> is \<open>None\<close> for a reference that no
  registered token has.
\<close>

record AuthorizationServer =
  signature_key :: signing_key
  client_registry :: "(cbor \<times> cbor) list"
  key_registry :: "(cbor \<times> CoseKey) list"
  token_registry :: "AccessToken list"

definition check_secret :: "(cbor \<times> cbor) list \<Rightarrow> cbor \<Rightarrow> cbor \<Rightarrow> bool" where
  "check_secret registered client secret = (map_of registered client = Some secret)"

definition add_key :: "(cbor \<times> CoseKey) list \<Rightarrow> cbor \<Rightarrow> CoseKey \<Rightarrow> (cbor \<times> CoseKey) list" where
  "add_key registry client key = AList.update client key registry"

definition add_token :: "AccessToken list \<Rightarrow> AccessToken \<Rightarrow> AccessToken list" where
  "add_token registry token = registry @ [token]"

definition get_token :: "as_env \<Rightarrow> AccessToken list \<Rightarrow> cbor \<Rightarrow> AccessToken option" where
  "get_token env registry ref = find (\<lambda>t. reference env t = ref) registry"

text \<open>
  \<open>AuthorizationServer.__init__\<close> registers one client, \<open>"ace_client_1"\<close> with the secret
  \<open>b"ace_client_1_secret_123456"\<close>.
\<close>

definition ascii :: "string \<Rightarrow> bytes" where
  "ascii s = map (\<lambda>c. of_char c) s"

definition AuthorizationServer_init :: "signing_key \<Rightarrow> AuthorizationServer" where
  "AuthorizationServer_init key =
     \<lparr>signature_key = key,
      client_registry = [(CText ''ace_client_1'', CBytes (ascii ''ace_client_1_secret_123456''))],
      key_registry = [], token_registry = []\<rparr>"

definition verify_client :: "AuthorizationServer \<Rightarrow> cbor \<Rightarrow> cbor \<Rightarrow> bool" where
  "verify_client self client secret = check_secret (client_registry self) client secret"

text \<open>\<open>web.Response(status=..., body=...)\<close>.\<close>

record Response =
  status :: nat
  body :: bytes

text \<open>\<open>all(key in request_data for key in expected_keys)\<close>, left to right.\<close>

fun all_in :: "int list \<Rightarrow> cbor \<Rightarrow> error + bool" where
  "all_in [] request_data = Inr True"
| "all_in (key # keys) request_data =
     bind_err (py_contains key request_data)
       (\<lambda>present. if present then all_in keys request_data else Inr False)"

definition verify_token_request :: "as_env \<Rightarrow> cbor \<Rightarrow> error + bool" where
  "verify_token_request env request_data =
     (let expected_keys = [CK env GRANT_TYPE, CK env CLIENT_ID, CK env CLIENT_SECRET, CK env AUD]
      in if request_data = CNull then Inr False else all_in expected_keys request_data)"

text \<open>
  \<open>_bind_token\<close>. The two bytes of \<open>os.urandom\<close> and the two integers the code makes
  of the clock are arguments: \<open>time_iat\<close> is the value of \<open>int(time.time())\<close> and
  \<open>time_exp\<close> the value of \<open>int(time.time() + 7200.0)\<close>, the sum being one of floats
  that the code truncates. \<open>claims.update\<close> overwrites a claim the client names like
  one of the server's.
\<close>

record token_inputs =
  cti_bytes :: bytes
  time_iat :: int
  time_exp :: int

definition bind_token ::
  "as_env \<Rightarrow> token_inputs \<Rightarrow> (cbor \<times> cbor) list \<Rightarrow> CoseKey \<Rightarrow> AccessToken" where
  "bind_token env inp client_claims session_key =
     (let claims0 =
            AList.updates [CInt (CK env ISS), CInt (CK env IAT), CInt (CK env EXP),
                           CInt (CK env CTI)]
              [CText ''ace.as-server.com'', CInt (time_iat inp), CInt (time_exp inp),
               CText (hex (cti_bytes inp))] [];
          claims1 = AList.updates (map fst client_claims) (map snd client_claims) claims0
      in \<lparr>claims = claims1, bound_key = Some session_key\<rparr>)"

text \<open>
  The handler of \<open>POST /token\<close>, from the bytes of the request body to the response or
  the exception, and the server after the call.
\<close>

definition token ::
  "prims \<Rightarrow> as_env \<Rightarrow> token_inputs \<Rightarrow> AuthorizationServer \<Rightarrow> bytes \<Rightarrow>
   (error + Response) \<times> AuthorizationServer" where
  "token K env inp self content =
     (case loads K content of
        None \<Rightarrow> (Inl CBORDecodeError, self)
      | Some params \<Rightarrow>
     (case verify_token_request env params of
        Inl e \<Rightarrow> (Inl e, self)
      | Inr False \<Rightarrow>
          (Inr \<lparr>status = 400,
                body = dumps K (CMap [(CText ''error'', CText ''invalid_request'')])\<rparr>, self)
      | Inr True \<Rightarrow>
     (case bind_err (py_getitem params (CK env CLIENT_ID)) (\<lambda>client.
           bind_err (py_getitem params (CK env CLIENT_SECRET)) (\<lambda>secret. Inr (client, secret))) of
        Inl e \<Rightarrow> (Inl e, self)
      | Inr (client, secret) \<Rightarrow>
          if \<not> verify_client self client secret then
            (Inr \<lparr>status = 400,
                  body = dumps K (CMap [(CText ''error'', CText ''unauthorized_client'')])\<rparr>, self)
          else
     (case bind_err (py_getitem params (CK env CNF)) (\<lambda>cnf.
           bind_err (py_getitem cnf COSE_KEY) (\<lambda>key.
           bind_err (from_cose env key) (\<lambda>client_pop_key.
           bind_err (py_getitem params (CK env SCOPE)) (\<lambda>scope.
           bind_err (py_getitem params (CK env AUD)) (\<lambda>aud.
             Inr (client_pop_key,
                  AList.updates [CInt (CK env SCOPE), CInt (CK env AUD)] [scope, aud] [])))))) of
        Inl e \<Rightarrow> (Inl e, self)
      | Inr (client_pop_key, client_claims) \<Rightarrow>
          (let tok = bind_token env inp client_claims client_pop_key;
               self1 = self\<lparr>key_registry := add_key (key_registry self) client client_pop_key\<rparr>;
               self2 = self1\<lparr>token_registry := add_token (token_registry self1) tok\<rparr>;
               token_sent = sign_and_export_self_contained env tok (signature_key self2);
               response = CMap (AList.updates
                 [CInt (CK env ACCESS_TOKEN), CInt (CK env TOKEN_TYPE), CInt (CK env PROFILE),
                  CInt (CK env RS_CNF)]
                 [token_sent, CText ''pop'', CText ''coap_oscore'', rs_cnf env] [])
           in (Inr \<lparr>status = 200, body = dumps K response\<rparr>, self2))))))"

text \<open>
  The handler of \<open>POST /introspect\<close>. Both parameters are read with a subscript. The
  attributes of the token (\<open>scope\<close>, \<open>audience\<close>, \<open>issuer\<close>, \<open>expires\<close>, \<open>issued_at\<close>) are
  its claims; a reference that is not registered yields \<open>None\<close>, which has no
  attributes.
\<close>

definition introspect ::
  "prims \<Rightarrow> as_env \<Rightarrow> AuthorizationServer \<Rightarrow> bytes \<Rightarrow> error + Response" where
  "introspect K env self content =
     (case loads K content of
        None \<Rightarrow> Inl CBORDecodeError
      | Some params \<Rightarrow>
          bind_err (py_contains (CK env TOKEN) params) (\<lambda>supplied.
            if \<not> supplied then
              Inr \<lparr>status = 400,
                   body = dumps K (CMap [(CText ''error'',
                     CText (''missing '' @ [CHR 0x22] @ ''token'' @ [CHR 0x22] @ '' parameter''))])\<rparr>
            else
              bind_err (py_getitem params (CK env TOKEN)) (\<lambda>tok.
              bind_err (py_getitem params (CK env TOKEN_TYPE_HINT)) (\<lambda>token_type_hint.
                (case get_token env (token_registry self) tok of
                   None \<Rightarrow> Inl AttributeError
                 | Some access_context \<Rightarrow>
                     bind_err (py_getitem (CMap (claims access_context)) (CK env SCOPE)) (\<lambda>scope.
                     bind_err (py_getitem (CMap (claims access_context)) (CK env AUD)) (\<lambda>aud.
                     bind_err (py_getitem (CMap (claims access_context)) (CK env ISS)) (\<lambda>iss.
                     bind_err (py_getitem (CMap (claims access_context)) (CK env EXP)) (\<lambda>exp.
                     bind_err (py_getitem (CMap (claims access_context)) (CK env IAT)) (\<lambda>iat.
                       (case bound_key access_context of
                          None \<Rightarrow> Inl AttributeError
                        | Some key \<Rightarrow>
                            Inr \<lparr>status = 201,
                                 body = dumps K (CMap (AList.updates
                                   [CInt (CK env ACTIVE), CInt (CK env SCOPE), CInt (CK env AUD),
                                    CInt (CK env ISS), CInt (CK env EXP), CInt (CK env IAT),
                                    CInt (CK env CNF)]
                                   [CBool True, scope, aud, iss, exp, iat,
                                    CMap [(CInt COSE_KEY, encode env key)]] []))\<rparr>)))))))))))"

section \<open>What the specification says about the key schedule\<close>

text \<open>
  Section 4.5 of the specification, in its own words, for comparison with the code:
  the per-message key and IV over a transcript hash, and the OSCORE context over
  \<open>TH_4 = SHA-256(TH_3 || ciphertext_3)\<close>. \<open>TH_3\<close> and \<open>ciphertext_3\<close> are read from the
  third message the session holds.
\<close>

definition spec_K :: "prims \<Rightarrow> bytes \<Rightarrow> bytes \<Rightarrow> bytes" where
  "spec_K K z th = hkdf_derive K z 16 (cose_kdf_context K ''AES-CCM-16-64-128'' 16 th)"

definition spec_IV :: "prims \<Rightarrow> bytes \<Rightarrow> bytes \<Rightarrow> bytes" where
  "spec_IV K z th = hkdf_derive K z 13 (cose_kdf_context K ''IV-GENERATION'' 13 th)"

definition spec_TH_4 :: "prims \<Rightarrow> bytes \<Rightarrow> bytes \<Rightarrow> bytes" where
  "spec_TH_4 K th_3 ciphertext_3 = sha256 K (th_3 @ ciphertext_3)"

definition spec_oscore_context :: "prims \<Rightarrow> 'a EdhocSession_scheme \<Rightarrow> OscoreContext option" where
  "spec_oscore_context K self =
     (case (shared_secret (session self), message3 self) of
        (Some z, Some m3) \<Rightarrow>
          (case (m3_aad_3 m3, m3_ciphertext m3) of
             (Some th_3, Some ciphertext_3) \<Rightarrow>
               (let th_4 = spec_TH_4 K th_3 ciphertext_3
                in Some \<lparr>master_secret =
                            hkdf_derive K z 16 (cose_kdf_context K ''OSCORE Master Secret'' 16 th_4),
                          master_salt =
                            hkdf_derive K z 8 (cose_kdf_context K ''OSCORE Master Salt'' 8 th_4)\<rparr>)
           | _ \<Rightarrow> None)
      | _ \<Rightarrow> None)"

section \<open>Contracts of the primitives\<close>

text \<open>
  What the theorems below assume of the libraries, each contract on its own: \<open>loads\<close>
  undoes \<open>dumps\<close>; ECDH gives both sides the same secret; key generation yields a
  loadable public key and an exchange that succeeds; the AEAD decrypts what it
  encrypted; a signature verifies under the key of its signer; HKDF returns as many
  bytes as it is asked for.
\<close>

definition codec_ok :: "prims \<Rightarrow> bool" where
  "codec_ok K = (\<forall>v. wf_cbor v \<longrightarrow> loads K (dumps K v) = Some v)"

definition ecdh_ok :: "prims \<Rightarrow> bool" where
  "ecdh_ok K =
     (\<forall>a b. ecdh_exchange K a (ec_public_key K b) = ecdh_exchange K b (ec_public_key K a))"

definition keygen_ok :: "prims \<Rightarrow> bool" where
  "keygen_ok K =
     ((\<forall>a. load_elliptic_curve_public_numbers K (ec_public_key K a)) \<and>
      (\<forall>a b. \<exists>z. ecdh_exchange K a (ec_public_key K b) = Inr z))"

definition aead_ok :: "prims \<Rightarrow> bool" where
  "aead_ok K =
     (\<forall>key nonce data aad.
        aead_decrypt K key nonce (aead_encrypt K key nonce data aad) aad = Some data)"

definition ecdsa_ok :: "prims \<Rightarrow> bool" where
  "ecdsa_ok K =
     (\<forall>key k digest. ecdsa_verify K (get_verifying_key K key) digest (ecdsa_sign K key k digest))"

definition hkdf_length_ok :: "prims \<Rightarrow> bool" where
  "hkdf_length_ok K = (\<forall>ikm n info. length (hkdf_derive K ikm n info) = n)"

section \<open>A small instance of the primitives\<close>

text \<open>
  An instance of the primitives that meets the contracts, for the concrete runs of the
  witnesses: a length-prefixed encoding of CBOR values with its decoder, a two-byte
  checksum in the place of SHA-256, a key derivation that pads or cuts to the length
  asked for, multiplication in the place of the curve, and a tag of the key in the
  place of the AEAD and of the signature. It stands for no real cryptography.
\<close>

fun enc_nat :: "nat \<Rightarrow> bytes" where
  "enc_nat n = (if n < 255 then [of_nat n] else 255 # enc_nat (n - 255))"

declare enc_nat.simps [simp del]

fun dec_nat :: "bytes \<Rightarrow> (nat \<times> bytes) option" where
  "dec_nat [] = None"
| "dec_nat (b # bs) =
     (if b = 255 then (case dec_nat bs of None \<Rightarrow> None | Some (n, r) \<Rightarrow> Some (n + 255, r))
      else Some (unat b, bs))"

fun toy_enc :: "cbor \<Rightarrow> bytes" where
  "toy_enc (CInt i) = 0 # (if i < 0 then 1 else 0) # enc_nat (nat \<bar>i\<bar>)"
| "toy_enc (CBytes bs) = 1 # enc_nat (length bs) @ bs"
| "toy_enc (CText s) = 2 # enc_nat (length s) @ map of_char s"
| "toy_enc (CBool b) = [3, if b then 1 else 0]"
| "toy_enc CNull = [4]"
| "toy_enc (CArray xs) = 5 # enc_nat (length xs) @ concat (map toy_enc xs)"
| "toy_enc (CMap m) =
     6 # enc_nat (length m) @ concat (map (\<lambda>kv. toy_enc (fst kv) @ toy_enc (snd kv)) m)"

primrec dec_items ::
  "(bytes \<Rightarrow> (cbor \<times> bytes) option) \<Rightarrow> nat \<Rightarrow> bytes \<Rightarrow> (cbor list \<times> bytes) option" where
  "dec_items d 0 bs = Some ([], bs)"
| "dec_items d (Suc k) bs =
     (case d bs of
        None \<Rightarrow> None
      | Some (x, r) \<Rightarrow>
          (case dec_items d k r of None \<Rightarrow> None | Some (xs, r') \<Rightarrow> Some (x # xs, r')))"

fun pair_up :: "'a list \<Rightarrow> ('a \<times> 'a) list" where
  "pair_up (k # v # rest) = (k, v) # pair_up rest"
| "pair_up rest = []"

definition flatten :: "('a \<times> 'a) list \<Rightarrow> 'a list" where
  "flatten m = concat (map (\<lambda>kv. [fst kv, snd kv]) m)"

text \<open>The decoder is given as much fuel as the input has bytes.\<close>

primrec toy_dec :: "nat \<Rightarrow> bytes \<Rightarrow> (cbor \<times> bytes) option" where
  "toy_dec 0 bs = None"
| "toy_dec (Suc fuel) bs =
     (case bs of
        [] \<Rightarrow> None
      | t # r \<Rightarrow>
          if t = 0 then
            (case r of
               [] \<Rightarrow> None
             | s # r1 \<Rightarrow>
                 (case dec_nat r1 of
                    None \<Rightarrow> None
                  | Some (n, r2) \<Rightarrow> Some (CInt (if s = 1 then - int n else int n), r2)))
          else if t = 1 then
            (case dec_nat r of
               None \<Rightarrow> None
             | Some (n, r1) \<Rightarrow>
                 if n \<le> length r1 then Some (CBytes (take n r1), drop n r1) else None)
          else if t = 2 then
            (case dec_nat r of
               None \<Rightarrow> None
             | Some (n, r1) \<Rightarrow>
                 if n \<le> length r1
                 then Some (CText (map (\<lambda>w. char_of (unat w)) (take n r1)), drop n r1)
                 else None)
          else if t = 3 then
            (case r of [] \<Rightarrow> None | b # r1 \<Rightarrow> Some (CBool (b = 1), r1))
          else if t = 4 then Some (CNull, r)
          else if t = 5 then
            (case dec_nat r of
               None \<Rightarrow> None
             | Some (n, r1) \<Rightarrow>
                 (case dec_items (toy_dec fuel) n r1 of
                    None \<Rightarrow> None
                  | Some (xs, r2) \<Rightarrow> Some (CArray xs, r2)))
          else if t = 6 then
            (case dec_nat r of
               None \<Rightarrow> None
             | Some (n, r1) \<Rightarrow>
                 (case dec_items (toy_dec fuel) (2 * n) r1 of
                    None \<Rightarrow> None
                  | Some (xs, r2) \<Rightarrow> Some (CMap (pair_up xs), r2)))
          else None)"

definition toy_dumps :: "cbor \<Rightarrow> bytes" where
  "toy_dumps v = toy_enc v"

definition toy_loads :: "bytes \<Rightarrow> cbor option" where
  "toy_loads bs =
     (case toy_dec (length bs) bs of
        Some (v, []) \<Rightarrow> Some v
      | _ \<Rightarrow> None)"

definition toy_hash :: "bytes \<Rightarrow> bytes" where
  "toy_hash m = [of_nat (length m), of_nat (sum_list (map unat m))]"

definition toy_hkdf :: "bytes \<Rightarrow> nat \<Rightarrow> bytes \<Rightarrow> bytes" where
  "toy_hkdf ikm n info = take n (ikm @ info @ replicate n 0)"

definition toy_public_key :: "ec_private \<Rightarrow> ec_public" where
  "toy_public_key a = EcPublic P_256 (int a) (2 * int a)"

fun toy_exchange :: "ec_private \<Rightarrow> ec_public \<Rightarrow> error + bytes" where
  "toy_exchange a (EcPublic c x y) =
     (if c = P_256 then Inr [of_nat (a * nat x)] else Inl ValueError)"

definition toy_aead_encrypt :: "bytes \<Rightarrow> bytes \<Rightarrow> bytes \<Rightarrow> bytes \<Rightarrow> bytes" where
  "toy_aead_encrypt key nonce data aad = toy_hash (key @ nonce @ aad) @ data"

definition toy_aead_decrypt :: "bytes \<Rightarrow> bytes \<Rightarrow> bytes \<Rightarrow> bytes \<Rightarrow> bytes option" where
  "toy_aead_decrypt key nonce data aad =
     (if take 2 data = toy_hash (key @ nonce @ aad) then Some (drop 2 data) else None)"

definition toy_verifying_key :: "signing_key \<Rightarrow> verifying_key" where
  "toy_verifying_key key = Suc key"

definition toy_sign :: "signing_key \<Rightarrow> nat \<Rightarrow> bytes \<Rightarrow> bytes" where
  "toy_sign key k digest = of_nat (Suc key) # of_nat k # digest"

definition toy_verify :: "verifying_key \<Rightarrow> bytes \<Rightarrow> bytes \<Rightarrow> bool" where
  "toy_verify key digest signature =
     (case signature of
        s # k # d \<Rightarrow> s = of_nat key \<and> d = digest
      | _ \<Rightarrow> False)"

definition toy :: prims where
  "toy =
     \<lparr>sha256 = toy_hash, hkdf_derive = toy_hkdf, ec_public_key = toy_public_key,
      ecdh_exchange = toy_exchange, load_elliptic_curve_public_numbers = (\<lambda>p. True),
      aead_encrypt = toy_aead_encrypt, aead_decrypt = toy_aead_decrypt,
      get_verifying_key = toy_verifying_key, ecdsa_sign = toy_sign, ecdsa_verify = toy_verify,
      dumps = toy_dumps, loads = toy_loads\<rparr>"

text \<open>The inputs of the concrete run: what each call draws, and the two endpoints.\<close>

definition rnd_u :: entropy where
  "rnd_u = \<lparr>urandom_2 = [1, 2], urandom_8 = [1, 2, 3, 4, 5, 6, 7, 8],
            generate_private_key = 5, sign_k = 11\<rparr>"

definition rnd_v :: entropy where
  "rnd_v = \<lparr>urandom_2 = [9, 9], urandom_8 = [8, 7, 6, 5, 4, 3, 2, 1],
            generate_private_key = 7, sign_k = 13\<rparr>"

definition client0 :: Client where
  "client0 = Client_init toy 3 (toy_verifying_key 4)"

definition server0 :: Server where
  "server0 = Server_init toy 4 (toy_verifying_key 3)"

text \<open>
  The collaborators of the authorization server for the concrete requests: the labels
  of section 6 of the specification (\<open>iss\<close> 1, \<open>aud\<close> 3, \<open>exp\<close> 4, \<open>iat\<close> 6, \<open>cti\<close> 7,
  \<open>cnf\<close> 8) and distinct labels for the other names; a \<open>CoseKey\<close> that accepts every
  key map; a token exported as the encoding of its claims and filed under its \<open>cti\<close>.
\<close>

fun toy_CK :: "key_name \<Rightarrow> int" where
  "toy_CK ISS = 1"
| "toy_CK AUD = 3"
| "toy_CK EXP = 4"
| "toy_CK IAT = 6"
| "toy_CK CTI = 7"
| "toy_CK CNF = 8"
| "toy_CK SCOPE = 12"
| "toy_CK TOKEN_TYPE = 13"
| "toy_CK ACCESS_TOKEN = 19"
| "toy_CK CLIENT_ID = 24"
| "toy_CK CLIENT_SECRET = 25"
| "toy_CK PROFILE = 26"
| "toy_CK TOKEN = 27"
| "toy_CK TOKEN_TYPE_HINT = 28"
| "toy_CK ACTIVE = 29"
| "toy_CK RS_CNF = 31"
| "toy_CK GRANT_TYPE = 33"

definition toy_env :: as_env where
  "toy_env =
     \<lparr>CK = toy_CK,
      from_cose = (\<lambda>v. Inr (CoseKey v)),
      encode = (\<lambda>k. case k of CoseKey v \<Rightarrow> v),
      sign_and_export_self_contained = (\<lambda>t key. CBytes (toy_dumps (CMap (claims t)))),
      reference = (\<lambda>t. case map_of (claims t) (CInt 7) of Some c \<Rightarrow> c | None \<Rightarrow> CNull),
      rs_cnf = CNull\<rparr>"

definition token_inputs0 :: token_inputs where
  "token_inputs0 = \<lparr>cti_bytes = [171, 205], time_iat = 1000, time_exp = 8200\<rparr>"

text \<open>
  A request for a token with the credentials of the registered client, every
  parameter of the interface, and a grant type no server supports.
\<close>

definition token_request :: cbor where
  "token_request =
     CMap [(CInt 33, CText ''no_such_grant''),
           (CInt 24, CText ''ace_client_1''),
           (CInt 25, CBytes (ascii ''ace_client_1_secret_123456'')),
           (CInt 3, CText ''tempSensor0''),
           (CInt 12, CText ''read_temperature''),
           (CInt 8, CMap [(CInt 1, CMap [(CInt 1, CInt 2)])])]"

text \<open>The server after it issued that token, and an introspection request without a hint.\<close>

definition as1 :: AuthorizationServer where
  "as1 = snd (token toy toy_env token_inputs0 (AuthorizationServer_init 1) (toy_dumps token_request))"

definition introspect_request :: cbor where
  "introspect_request = CMap [(CInt 27, CText ''abcd'')]"

text \<open>
  The concrete run: both endpoints after it (the initial ones, had the run stopped
  early), and the server between its two steps, after it answered the first message.
\<close>

definition toy_run :: "(Client \<times> Server) option" where
  "toy_run = edhoc_run toy rnd_u rnd_v rnd_u client0 server0"

definition toy_client :: Client where
  "toy_client = (case toy_run of Some (c, s) \<Rightarrow> c | None \<Rightarrow> client0)"

definition toy_server :: Server where
  "toy_server = (case toy_run of Some (c, s) \<Rightarrow> s | None \<Rightarrow> server0)"

text \<open>
  A second handshake on the server of the first one, after the server has read its
  OSCORE context: a new client object draws other random values, the server draws
  the same as before.
\<close>

definition rnd_w :: entropy where
  "rnd_w = \<lparr>urandom_2 = [3, 4], urandom_8 = [2, 2, 2, 2, 2, 2, 2, 2],
            generate_private_key = 6, sign_k = 17\<rparr>"

definition toy_server_read :: Server where
  "toy_server_read = snd (oscore_context toy toy_server)"

definition toy_rerun :: "(Client \<times> Server) option" where
  "toy_rerun = edhoc_run toy rnd_w rnd_v rnd_w client0 toy_server_read"

definition toy_client2 :: Client where
  "toy_client2 = (case toy_rerun of Some (c, s) \<Rightarrow> c | None \<Rightarrow> client0)"

definition toy_server2 :: Server where
  "toy_server2 = (case toy_rerun of Some (c, s) \<Rightarrow> s | None \<Rightarrow> toy_server_read)"

definition toy_first_message :: bytes where
  "toy_first_message = message1_bytes toy (fst (initiate_edhoc toy rnd_u client0))"

definition toy_server_sent2 :: Server where
  "toy_server_sent2 = fst (snd (on_receive toy rnd_v server0 toy_first_message))"

text \<open>
  A third message for the session of a server that has answered the first one: the
  inner Sign1 is made with the signing key \<open>key\<close> and carries \<open>kid\<close> in its unprotected
  header (COSE header label 4); it is encrypted as \<open>continue_edhoc\<close> encrypts.
\<close>

definition message3_with_kid :: "prims \<Rightarrow> Server \<Rightarrow> signing_key \<Rightarrow> nat \<Rightarrow> bytes \<Rightarrow> bytes" where
  "message3_with_kid K s key k kid =
     (case (message1 s, message2 s, shared_secret (session s)) of
        (Some m1, Some m2, Some z) \<Rightarrow>
          (case m2_ciphertext m2 of
             Some ct2 \<Rightarrow>
               (let th3 = message_digest K
                            (message_digest K (message1_bytes K m1 @ data_2 K m2) @ ct2);
                    k3 = derive_key K z 16 (cose_kdf_context K ''AES-CCM-64-64-128'' 16 th3);
                    iv3 = derive_key K z 7 (cose_kdf_context K ''IV-Generation'' 7 th3);
                    sig_u = sign1_serialize_signed K key k [] (CMap [(CInt 4, CBytes kid)]) [] th3
                in dumps K (CArray [CInt EDHOC_MSG_3, m2_peer_session_id m2,
                                    CBytes (encrypt0_serialize K sig_u k3 iv3 th3)]))
           | None \<Rightarrow> [])
      | _ \<Rightarrow> [])"

section \<open>The small instance meets the contracts\<close>

lemma unat_of_nat_255: "n < 255 \<Longrightarrow> unat (of_nat n :: 8 word) = n"
  by (simp add: unat_of_nat)

lemma of_nat_neq_255: "n < 255 \<Longrightarrow> (of_nat n :: 8 word) \<noteq> 255"
proof
  assume a: "n < 255" and b: "(of_nat n :: 8 word) = 255"
  from a have "unat (of_nat n :: 8 word) = n" by (rule unat_of_nat_255)
  with b a show False by simp
qed

lemma dec_enc_nat: "dec_nat (enc_nat n @ r) = Some (n, r)"
proof (induction n rule: enc_nat.induct)
  case (1 n)
  show ?case
  proof (cases "n < 255")
    case True
    then show ?thesis
      by (subst enc_nat.simps) (simp add: of_nat_neq_255 unat_of_nat_255)
  next
    case False
    with 1 show ?thesis by (subst enc_nat.simps) simp
  qed
qed

lemma char_of_byte: "char_of (unat (of_char c :: 8 word)) = c"
proof -
  have "(of_char c :: 8 word) = of_nat (of_char c)" by (rule of_nat_of_char [symmetric])
  moreover have "(of_char c :: nat) < 256" by simp
  ultimately have "unat (of_char c :: 8 word) = of_char c"
    by (simp add: unat_of_nat del: of_nat_of_char)
  then show ?thesis by simp
qed


lemma dec_items_enc:
  assumes "\<And>x r. x \<in> set xs \<Longrightarrow> d (toy_enc x @ r) = Some (x, r)"
  shows "dec_items d (length xs) (concat (map toy_enc xs) @ r) = Some (xs, r)"
  using assms by (induction xs arbitrary: r) simp_all

lemma pair_up_flatten: "pair_up (flatten m) = m"
  by (induction m) (simp_all add: flatten_def)

lemma length_flatten: "length (flatten m) = 2 * length m"
  by (induction m) (simp_all add: flatten_def)

lemma enc_flatten:
  "concat (map (\<lambda>kv. toy_enc (fst kv) @ toy_enc (snd kv)) m) = concat (map toy_enc (flatten m))"
  by (induction m) (simp_all add: flatten_def)

lemma size_pair_in_map: "(k, v) \<in> set m \<Longrightarrow> size k < size (CMap m) \<and> size v < size (CMap m)"
  by (induction m) auto

lemma size_flatten: "x \<in> set (flatten m) \<Longrightarrow> size x < size (CMap m)"
proof -
  assume "x \<in> set (flatten m)"
  then obtain kv where kv: "kv \<in> set m" and x: "x = fst kv \<or> x = snd kv"
    by (auto simp: flatten_def)
  from kv have "size (fst kv) < size (CMap m) \<and> size (snd kv) < size (CMap m)"
    using size_pair_in_map [of "fst kv" "snd kv" m] by simp
  with x show ?thesis by auto
qed

lemma size_array: "x \<in> set xs \<Longrightarrow> size x < size (CArray xs)"
  by (induction xs) auto

lemma toy_dec_enc: "size v < n \<Longrightarrow> toy_dec n (toy_enc v @ r) = Some (v, r)"
proof (induction n arbitrary: v r)
  case 0
  then show ?case by simp
next
  case (Suc n)
  show ?case
  proof (cases v)
    case (CInt i)
    then show ?thesis by (simp add: dec_enc_nat)
  next
    case (CBytes bs)
    then show ?thesis by (simp add: dec_enc_nat)
  next
    case (CText s)
    then show ?thesis by (simp add: dec_enc_nat char_of_byte comp_def)
  next
    case (CBool b)
    then show ?thesis by simp
  next
    case (CArray xs)
    have "\<And>x r. x \<in> set xs \<Longrightarrow> toy_dec n (toy_enc x @ r) = Some (x, r)"
    proof -
      fix x r assume "x \<in> set xs"
      then have "size x < size (CArray xs)" by (rule size_array)
      with Suc.prems CArray have "size x < n" by simp
      then show "toy_dec n (toy_enc x @ r) = Some (x, r)" by (rule Suc.IH)
    qed
    then have "dec_items (toy_dec n) (length xs) (concat (map toy_enc xs) @ r) = Some (xs, r)"
      by (rule dec_items_enc)
    with CArray show ?thesis by (simp add: dec_enc_nat)
  next
    case (CMap m)
    have "\<And>x r. x \<in> set (flatten m) \<Longrightarrow> toy_dec n (toy_enc x @ r) = Some (x, r)"
    proof -
      fix x r assume "x \<in> set (flatten m)"
      then have "size x < size (CMap m)" by (rule size_flatten)
      with Suc.prems CMap have "size x < n" by simp
      then show "toy_dec n (toy_enc x @ r) = Some (x, r)" by (rule Suc.IH)
    qed
    then have "dec_items (toy_dec n) (length (flatten m)) (concat (map toy_enc (flatten m)) @ r)
               = Some (flatten m, r)"
      by (rule dec_items_enc)
    with CMap show ?thesis
      by (simp add: dec_enc_nat enc_flatten length_flatten pair_up_flatten)
  next
    case CNull
    then show ?thesis by simp
  qed
qed

lemma size_list_le_sum:
  assumes "\<And>x. x \<in> set xs \<Longrightarrow> f x < g x"
  shows "size_list f xs \<le> sum_list (map g xs)"
  using assms
proof (induction xs)
  case Nil
  then show ?case by simp
next
  case (Cons a xs)
  have "f a < g a" using Cons.prems by simp
  moreover have "size_list f xs \<le> sum_list (map g xs)" using Cons by simp
  ultimately show ?case by simp
qed

lemma enc_nat_nonempty: "\<exists>l. length (enc_nat n) = Suc l"
  by (subst enc_nat.simps) simp

lemma size_le_length_enc: "size v < length (toy_enc v)"
proof (induction v)
  case (CArray xs)
  have "size_list size xs \<le> sum_list (map (\<lambda>x. length (toy_enc x)) xs)"
    using CArray by (intro size_list_le_sum) simp
  moreover obtain l where "length (enc_nat (length xs)) = Suc l"
    using enc_nat_nonempty by blast
  ultimately show ?case by (simp add: length_concat comp_def)
next
  case (CMap m)
  have "size_list (size_prod size size) m
          \<le> sum_list (map (\<lambda>kv. length (toy_enc (fst kv)) + length (toy_enc (snd kv))) m)"
  proof (intro size_list_le_sum)
    fix kv assume kv: "kv \<in> set m"
    obtain k v where e: "kv = (k, v)" by (cases kv)
    have "size k < length (toy_enc k)" using CMap kv e
      by (metis fst_conv fsts.intros)
    moreover have "size v < length (toy_enc v)" using CMap kv e
      by (metis snd_conv snds.intros)
    ultimately show "size_prod size size kv
       < length (toy_enc (fst kv)) + length (toy_enc (snd kv))"
      using e by simp
  qed
  moreover obtain l where "length (enc_nat (length m)) = Suc l"
    using enc_nat_nonempty by blast
  ultimately show ?case by (simp add: length_concat comp_def)
qed simp_all

lemma toy_loads_dumps: "toy_loads (toy_dumps v) = Some v"
  using toy_dec_enc [of v "length (toy_enc v)" "[]"] size_le_length_enc [of v]
  by (simp add: toy_loads_def toy_dumps_def)


lemma toy_simps:
  "sha256 toy = toy_hash" "hkdf_derive toy = toy_hkdf" "ec_public_key toy = toy_public_key"
  "ecdh_exchange toy = toy_exchange" "load_elliptic_curve_public_numbers toy = (\<lambda>p. True)"
  "aead_encrypt toy = toy_aead_encrypt" "aead_decrypt toy = toy_aead_decrypt"
  "get_verifying_key toy = toy_verifying_key" "ecdsa_sign toy = toy_sign"
  "ecdsa_verify toy = toy_verify" "dumps toy = toy_dumps" "loads toy = toy_loads"
  by (simp_all add: toy_def)

lemma toy_codec_ok: "codec_ok toy"
  by (simp add: codec_ok_def toy_simps toy_loads_dumps)

lemma toy_ecdh_ok: "ecdh_ok toy"
  by (simp add: ecdh_ok_def toy_simps toy_public_key_def mult.commute)

lemma toy_keygen_ok: "keygen_ok toy"
  by (simp add: keygen_ok_def toy_simps toy_public_key_def)

lemma toy_aead_ok: "aead_ok toy"
  by (simp add: aead_ok_def toy_simps toy_aead_encrypt_def toy_aead_decrypt_def toy_hash_def)

lemma toy_ecdsa_ok: "ecdsa_ok toy"
  by (simp add: ecdsa_ok_def toy_simps toy_sign_def toy_verify_def toy_verifying_key_def)

lemma toy_hkdf_length_ok: "hkdf_length_ok toy"
  unfolding hkdf_length_ok_def toy_simps toy_hkdf_def
  by (intro allI) (simp add: min_def)

lemma loads_dumps: "codec_ok K \<Longrightarrow> wf_cbor v \<Longrightarrow> loads K (dumps K v) = Some v"
  by (simp add: codec_ok_def)

section \<open>The authorization server: lemmas\<close>

lemma toy_loads_dumps': "loads toy (toy_dumps v) = Some v"
  by (simp add: toy_simps toy_loads_dumps)


lemma introspect_demo:
  "introspect toy toy_env as1 (toy_dumps introspect_request) = Inl KeyError"
  by (simp add: introspect_def toy_loads_dumps' introspect_request_def toy_env_def bind_err_def)

lemma as1_registry:
  "get_token toy_env (token_registry as1) (CText ''abcd'') \<noteq> None"
  by (simp add: as1_def token_def toy_loads_dumps' token_request_def verify_token_request_def
      toy_env_def bind_err_def AuthorizationServer_init_def verify_client_def check_secret_def
      COSE_KEY_def Let_def get_token_def add_token_def bind_token_def token_inputs0_def
      hex_def hexdigit_def)










section \<open>The server's dispatch: lemmas\<close>

lemma on_receive_other_tag:
  assumes "loads K m = Some d" and "py_getitem d 0 = Inr t"
    and "\<not> py_eq_int t EDHOC_MSG_1" and "\<not> py_eq_int t EDHOC_MSG_3"
  shows "on_receive K rnd s m = (Inr PyNone, s, [''Server Received:  '' @ hex m])"
  using assms by (simp add: on_receive_def)

lemma on_msg_1_result_state_free:
  "Server.sk s = Server.sk s' \<Longrightarrow> fst (on_msg_1 K rnd s m) = fst (on_msg_1 K rnd s' m)"
  by (simp add: on_msg_1_def Let_def split: sum.splits prod.splits)

lemma on_receive_tag_1:
  assumes "loads K m = Some d" and "py_getitem d 0 = Inr t" and "py_eq_int t EDHOC_MSG_1"
  shows "fst (on_receive K rnd s m) = fst (on_msg_1 K rnd s m)"
  using assms by (simp add: on_receive_def split: prod.splits)

lemma on_msg_3_keeps:
  "on_msg_3 K s m = (r, s', out) \<Longrightarrow>
   session s' = session s \<and> message1 s' = message1 s \<and> message2 s' = message2 s \<and>
   oscore_context_cached s' = oscore_context_cached s \<and> Server.sk s' = Server.sk s \<and>
   client_id s' = client_id s"
  by (auto simp: on_msg_3_def Let_def split: option.splits sum.splits list.splits prod.splits)

lemma on_msg_1_not_ok: "fst (on_msg_1 K rnd s m) \<noteq> Inr MessageOk"
  by (simp add: on_msg_1_def Let_def split: sum.splits prod.splits)

lemma on_msg_3_not_reply2: "fst (on_msg_3 K s m) \<noteq> Inr (Reply2 m2)"
  by (auto simp: on_msg_3_def Let_def split: option.splits sum.splits list.splits prod.splits)

lemma on_receive_ok:
  assumes "on_receive K rnd s m = (Inr MessageOk, s', out)"
  shows "\<exists>out'. on_msg_3 K s m = (Inr MessageOk, s', out')"
  using assms on_msg_1_not_ok [of K rnd s m]
  by (auto simp: on_receive_def Let_def split: option.splits sum.splits if_splits prod.splits)

lemma on_receive_reply2:
  assumes "on_receive K rnd s m = (Inr (Reply2 m2), s', out)"
  shows "\<exists>out'. on_msg_1 K rnd s m = (Inr (Reply2 m2), s', out')"
  using assms on_msg_3_not_reply2 [of K s m m2]
  by (auto simp: on_receive_def Let_def split: option.splits sum.splits if_splits prod.splits)

section \<open>The steps of a run: what a successful call has done\<close>

lemma ecdh_curves_Curve: "ecdh_curves (CInt (Curve c)) = Inr c"
  by (cases c) simp_all

lemma wf_key_map: "wf_cbor (ecdh_key_to_cose key)"
  by (cases key) (simp add: KTY_def CRV_def X_def Y_def)

lemma ecdh_cose_roundtrip:
  assumes "codec_ok K"
  shows "ecdh_cose_to_key K (CBytes (ecdh_key_to_cose_encoded K key)) =
         (if load_elliptic_curve_public_numbers K key then Inr key else Inl ValueError)"
proof (cases key)
  case (EcPublic c x y)
  have "loads K (dumps K (ecdh_key_to_cose key)) = Some (ecdh_key_to_cose key)"
    using assms wf_key_map by (rule loads_dumps)
  then show ?thesis using EcPublic
    by (simp add: ecdh_cose_to_key_def ecdh_key_to_cose_encoded_def bind_err_def
        KTY_def CRV_def X_def Y_def ecdh_curves_Curve del: ecdh_curves.simps)
qed

lemma on_msg_1_success:
  assumes "on_msg_1 K rnd s b = (Inr (Reply2 m2), s1, out)"
  shows "\<exists>m1 z th2 sg k2 iv2.
     message1_from_bytes K b = Inr m1 \<and>
     ecdh_exchange K (generate_private_key rnd) (m1_ephemeral_key m1) = Inr z \<and>
     th2 = message_digest K (message1_bytes K m1 @ data_2 K m2) \<and>
     sg = sign1_serialize_signed K (Server.sk s) (sign_k rnd) [] (CMap []) [] th2 \<and>
     k2 = derive_key K z 16 (cose_kdf_context K ''AES-CCM-64-64-128'' 16 th2) \<and>
     iv2 = derive_key K z 7 (cose_kdf_context K ''IV-Generation'' 7 th2) \<and>
     m2 = \<lparr>m2_session_id = m1_session_id m1, m2_peer_session_id = CBytes (urandom_2 rnd),
           m2_peer_nonce = CBytes (urandom_8 rnd),
           m2_peer_ephemeral_key = ec_public_key K (generate_private_key rnd),
           m2_aad_2 = Some th2, m2_signature = Some sg,
           m2_ciphertext = Some (encrypt0_serialize K sg k2 iv2 th2),
           m2_bytes_object = None\<rparr> \<and>
     s1 = s\<lparr>message1 := Some m1,
            session := (session s)\<lparr>id' := Some (urandom_2 rnd),
               private_key := Some (generate_private_key rnd),
               public_key := Some (ec_public_key K (generate_private_key rnd)),
               shared_secret := Some z\<rparr>,
            message2 := Some m2\<rparr> \<and>
     out = [''Server AAD2 = '' @ hex th2, ''Server K2 = '' @ hex k2, ''Server IV2 = '' @ hex iv2]"
  using assms
  by (auto simp: on_msg_1_def Let_def Message2_def aad_2_def message2_sign_def
      message2_encrypt_def data_2_def
      split: sum.splits prod.splits option.splits)

lemma unpack_6:
  "unpack 6 d = Inr xs \<Longrightarrow> \<exists>a b c e f g. xs = [a, b, c, e, f, g]"
  by (auto simp: unpack_def bind_err_def length_Suc_conv numeral_eq_Suc split: sum.splits if_splits)

lemma unpack_3:
  "unpack 3 d = Inr xs \<Longrightarrow> \<exists>a b c. xs = [a, b, c]"
  by (auto simp: unpack_def bind_err_def length_Suc_conv numeral_eq_Suc split: sum.splits if_splits)

lemma data_2_aad_update [simp]: "data_2 K (m\<lparr>m2_aad_2 := a\<rparr>) = data_2 K m"
  by (simp add: data_2_def)

lemma continue_edhoc_success:
  assumes "continue_edhoc K rnd c msg2 = (Inr m3, c2, out)"
  shows "\<exists>decoded tag sess_id p_sess_id p_nonce p_eph_cose enc_2 p_eph_key session_key z m1
           sig_v payload ct2.
     loads K msg2 = Some decoded \<and>
     unpack 6 decoded = Inr [tag, sess_id, p_sess_id, p_nonce, p_eph_cose, enc_2] \<and>
     ecdh_cose_to_key K p_eph_cose = Inr p_eph_key \<and>
     private_key (session c) = Some session_key \<and>
     ecdh_exchange K session_key p_eph_key = Inr z \<and>
     message1 c = Some m1 \<and>
     m2_ciphertext (Message2 K sess_id p_sess_id p_nonce p_eph_key (Some msg2)) = Some ct2 \<and>
     (let m2i = Message2 K sess_id p_sess_id p_nonce p_eph_key (Some msg2);
          th2 = message_digest K (message1_bytes K m1 @ data_2 K m2i);
          k2 = derive_key K z 16 (cose_kdf_context K ''AES-CCM-64-64-128'' 16 th2);
          iv2 = derive_key K z 7 (cose_kdf_context K ''IV-Generation'' 7 th2);
          th3 = message_digest K (th2 @ ct2);
          sg = sign1_serialize_signed K (Client.sk c) (sign_k rnd) [] (CMap []) [] th3;
          k3 = derive_key K z 16 (cose_kdf_context K ''AES-CCM-64-64-128'' 16 th3);
          iv3 = derive_key K z 7 (cose_kdf_context K ''IV-Generation'' 7 th3)
      in encrypt0_decrypt K enc_2 k2 iv2 th2 = Inr sig_v \<and>
         sign1_verify K sig_v (server_id c) th2 = Inr payload \<and>
         m3 = \<lparr>m3_peer_session_id = p_sess_id, m3_aad_3 = Some th3, m3_signature = Some sg,
               m3_ciphertext = Some (encrypt0_serialize K sg k3 iv3 th3),
               m3_bytes_object = None\<rparr> \<and>
         c2 = c\<lparr>session := (session c)\<lparr>shared_secret := Some z\<rparr>,
                message2 := Some (m2i\<lparr>m2_aad_2 := Some th2\<rparr>), message3 := Some m3\<rparr> \<and>
         out = [''Client AAD2 = '' @ hex th2, ''Client K2 = '' @ hex k2,
                ''Client IV2 = '' @ hex iv2, ''Client AAD3 = '' @ hex th3,
                ''Client K3 = '' @ hex k3, ''Client IV3 = '' @ hex iv3])"
proof -
  from assms obtain decoded where d: "loads K msg2 = Some decoded"
    by (auto simp: continue_edhoc_def split: option.splits)
  from assms d obtain xs where u: "unpack 6 decoded = Inr xs"
    by (auto simp: continue_edhoc_def split: sum.splits)
  then obtain tag sess_id p_sess_id p_nonce p_eph_cose enc_2
    where xs: "xs = [tag, sess_id, p_sess_id, p_nonce, p_eph_cose, enc_2]"
    using unpack_6 by blast
  from assms d u xs obtain p_eph_key where k: "ecdh_cose_to_key K p_eph_cose = Inr p_eph_key"
    by (auto simp: continue_edhoc_def split: sum.splits)
  from assms d u xs k obtain session_key where p: "private_key (session c) = Some session_key"
    by (auto simp: continue_edhoc_def split: option.splits)
  from assms d u xs k p obtain z where z: "ecdh_exchange K session_key p_eph_key = Inr z"
    by (auto simp: continue_edhoc_def split: sum.splits)
  from assms d u xs k p z obtain m1 where m1: "message1 c = Some m1"
    by (auto simp: continue_edhoc_def Let_def split: option.splits)
  show ?thesis
    using assms d u xs k p z m1
    by (auto simp: continue_edhoc_def Let_def aad_2_def aad_3_def message3_sign_def
        message3_encrypt_def Message3_def
        split: sum.splits prod.splits option.splits)
qed

lemma on_msg_3_success:
  assumes "on_msg_3 K s m = (Inr MessageOk, s', out)"
  shows "\<exists>decoded tag p_sess_id enc_3 m1 m2 ct2 z sig_u payload.
     loads K m = Some decoded \<and>
     unpack 3 decoded = Inr [tag, p_sess_id, enc_3] \<and>
     message1 s = Some m1 \<and> message2 s = Some m2 \<and> m2_ciphertext m2 = Some ct2 \<and>
     shared_secret (session s) = Some z \<and>
     (let th2 = message_digest K (message1_bytes K m1 @ data_2 K m2);
          th3 = message_digest K (th2 @ ct2);
          k3 = derive_key K z 16 (cose_kdf_context K ''AES-CCM-64-64-128'' 16 th3);
          iv3 = derive_key K z 7 (cose_kdf_context K ''IV-Generation'' 7 th3)
      in encrypt0_decrypt K enc_3 k3 iv3 th3 = Inr sig_u \<and>
         sign1_verify K sig_u (client_id s) th3 = Inr payload \<and>
         s' = s\<lparr>message3 := Some ((Message3 K p_sess_id (Some m))\<lparr>m3_aad_3 := Some th3\<rparr>)\<rparr> \<and>
         out = [])"
proof -
  from assms obtain decoded where d: "loads K m = Some decoded"
    by (auto simp: on_msg_3_def split: option.splits)
  from assms d obtain xs where u: "unpack 3 decoded = Inr xs"
    by (auto simp: on_msg_3_def split: sum.splits)
  then obtain tag p_sess_id enc_3 where xs: "xs = [tag, p_sess_id, enc_3]"
    using unpack_3 by blast
  show ?thesis
    using assms d u xs
    by (auto simp: on_msg_3_def Let_def aad_2_def aad_3_def
        split: sum.splits prod.splits option.splits)
qed

lemma message1_from_bytes_roundtrip:
  assumes "codec_ok K"
  shows "message1_from_bytes K (message1_bytes K (Message1 sid nonce key)) =
         (if load_elliptic_curve_public_numbers K key
          then Inr \<lparr>m1_session_id = CBytes sid, m1_nonce = CBytes nonce, m1_ephemeral_key = key,
                    m1_bytes_object = Some (message1_bytes K (Message1 sid nonce key))\<rparr>
          else Inl ValueError)"
proof -
  let ?v = "CArray [CInt EDHOC_MSG_1, CBytes sid, CBytes nonce,
                    CBytes (ecdh_key_to_cose_encoded K key)]"
  have b: "message1_bytes K (Message1 sid nonce key) = dumps K ?v"
    by (simp add: message1_bytes_def Message1_def)
  have l: "loads K (dumps K ?v) = Some ?v"
    using assms by (rule loads_dumps) simp
  show ?thesis
    unfolding b
    by (simp add: message1_from_bytes_def l ecdh_cose_roundtrip [OF assms] bind_err_def)
qed

lemma edhoc_run_success:
  assumes "edhoc_run K rc rs rc' c0 s0 = Some (c, s)"
  shows "\<exists>msg1 c1 msg2 s1 out1 msg3 out2 out3.
     initiate_edhoc K rc c0 = (msg1, c1) \<and>
     on_msg_1 K rs s0 (message1_bytes K msg1) = (Inr (Reply2 msg2), s1, out1) \<and>
     continue_edhoc K rc' c1 (message2_bytes K msg2) = (Inr msg3, c, out2) \<and>
     on_msg_3 K s1 (message3_bytes K msg3) = (Inr MessageOk, s, out3)"
proof -
  obtain msg1 c1 where i: "initiate_edhoc K rc c0 = (msg1, c1)"
    by (cases "initiate_edhoc K rc c0")
  obtain r1 s1 o1 where a: "on_receive K rs s0 (message1_bytes K msg1) = (r1, s1, o1)"
    by (cases "on_receive K rs s0 (message1_bytes K msg1)")
  from assms i a obtain msg2 where r1: "r1 = Inr (Reply2 msg2)"
    by (auto simp: edhoc_run_def split: sum.splits reply.splits)
  obtain r2 c2 o2 where b: "continue_edhoc K rc' c1 (message2_bytes K msg2) = (r2, c2, o2)"
    by (cases "continue_edhoc K rc' c1 (message2_bytes K msg2)")
  from assms i a r1 b obtain msg3 where r2: "r2 = Inr msg3"
    by (auto simp: edhoc_run_def split: sum.splits)
  obtain r3 s3 o3 where e: "on_receive K rs s1 (message3_bytes K msg3) = (r3, s3, o3)"
    by (cases "on_receive K rs s1 (message3_bytes K msg3)")
  from assms i a r1 b r2 e have r3: "r3 = Inr MessageOk" and cs: "c = c2" "s = s3"
    by (auto simp: edhoc_run_def split: sum.splits reply.splits)
  from a r1 obtain out1 where "on_msg_1 K rs s0 (message1_bytes K msg1) = (Inr (Reply2 msg2), s1, out1)"
    using on_receive_reply2 by blast
  moreover from e r3 obtain out3 where "on_msg_3 K s1 (message3_bytes K msg3) = (Inr MessageOk, s3, out3)"
    using on_receive_ok by blast
  ultimately show ?thesis using i b r2 cs by blast
qed

lemma unpack_array: "unpack n (CArray xs) = (if length xs = n then Inr xs else Inl ValueError)"
  by (simp add: unpack_def bind_err_def)

lemma edhoc_run_final:
  assumes codec: "codec_ok K"
    and run: "edhoc_run K rc rs rc' c0 s0 = Some (c, s)"
  shows "\<exists>z z' m1c m1s m2c m2s m3c m3s th3c th3s ct3.
     ecdh_exchange K (generate_private_key rc) (ec_public_key K (generate_private_key rs)) = Inr z \<and>
     ecdh_exchange K (generate_private_key rs) (ec_public_key K (generate_private_key rc)) = Inr z' \<and>
     shared_secret (session c) = Some z \<and> shared_secret (session s) = Some z' \<and>
     private_key (session c) = Some (generate_private_key rc) \<and>
     private_key (session s) = Some (generate_private_key rs) \<and>
     message1 c = Some m1c \<and> message1 s = Some m1s \<and>
     message2 c = Some m2c \<and> message2 s = Some m2s \<and>
     message3 c = Some m3c \<and> message3 s = Some m3s \<and>
     message1_bytes K m1c = message1_bytes K m1s \<and>
     message2_bytes K m2c = message2_bytes K m2s \<and>
     message3_bytes K m3c = message3_bytes K m3s \<and>
     m3_aad_3 m3s = Some th3s \<and> m3_ciphertext m3s = Some ct3 \<and>
     m3_aad_3 m3c = Some th3c \<and> m3_ciphertext m3c = Some ct3 \<and>
     oscore_context_cached c = oscore_context_cached c0 \<and>
     oscore_context_cached s = oscore_context_cached s0"
proof -
  let ?kc = "generate_private_key rc" and ?ks = "generate_private_key rs"
  let ?pc = "ec_public_key K (generate_private_key rc)"
  let ?ps = "ec_public_key K (generate_private_key rs)"
  from edhoc_run_success [OF run] obtain msg1 c1 msg2 s1 out1 msg3 out2 out3 where
    i: "initiate_edhoc K rc c0 = (msg1, c1)" and
    a: "on_msg_1 K rs s0 (message1_bytes K msg1) = (Inr (Reply2 msg2), s1, out1)" and
    b: "continue_edhoc K rc' c1 (message2_bytes K msg2) = (Inr msg3, c, out2)" and
    e: "on_msg_3 K s1 (message3_bytes K msg3) = (Inr MessageOk, s, out3)"
    by blast
  from i have msg1: "msg1 = Message1 (urandom_2 rc) (urandom_8 rc) ?pc"
    and c1: "c1 = c0\<lparr>session := (session c0)\<lparr>id' := Some (urandom_2 rc),
                 private_key := Some ?kc, public_key := Some ?pc\<rparr>,
               message1 := Some msg1\<rparr>"
    by (auto simp: initiate_edhoc_def Let_def)
  \<comment> \<open>the server's first step\<close>
  from on_msg_1_success [OF a] obtain m1s z' th2 sg k2 iv2 where
    f: "message1_from_bytes K (message1_bytes K msg1) = Inr m1s" and
    zs: "ecdh_exchange K ?ks (m1_ephemeral_key m1s) = Inr z'" and
    m2: "msg2 = \<lparr>m2_session_id = m1_session_id m1s, m2_peer_session_id = CBytes (urandom_2 rs),
           m2_peer_nonce = CBytes (urandom_8 rs), m2_peer_ephemeral_key = ?ps,
           m2_aad_2 = Some th2, m2_signature = Some sg,
           m2_ciphertext = Some (encrypt0_serialize K sg k2 iv2 th2),
           m2_bytes_object = None\<rparr>" and
    s1: "s1 = s0\<lparr>message1 := Some m1s,
            session := (session s0)\<lparr>id' := Some (urandom_2 rs),
               private_key := Some ?ks, public_key := Some ?ps, shared_secret := Some z'\<rparr>,
            message2 := Some msg2\<rparr>"
    by blast
  from f have m1s: "m1s = \<lparr>m1_session_id = CBytes (urandom_2 rc), m1_nonce = CBytes (urandom_8 rc),
        m1_ephemeral_key = ?pc, m1_bytes_object = Some (message1_bytes K msg1)\<rparr>"
    unfolding msg1 message1_from_bytes_roundtrip [OF codec] by (simp split: if_splits)
  let ?ct2 = "encrypt0_serialize K sg k2 iv2 th2"
  let ?v2 = "CArray [CInt EDHOC_MSG_2, CBytes (urandom_2 rc), CBytes (urandom_2 rs),
               CBytes (urandom_8 rs), CBytes (ecdh_key_to_cose_encoded K ?ps), CBytes ?ct2]"
  have b2: "message2_bytes K msg2 = dumps K ?v2"
    by (simp add: m2 m1s message2_bytes_def)
  have l2: "loads K (dumps K ?v2) = Some ?v2"
    using codec by (rule loads_dumps) simp
  \<comment> \<open>the client's second step\<close>
  from continue_edhoc_success [OF b] obtain decoded tag sess_id p_sess_id p_nonce p_eph_cose enc_2
      p_eph_key session_key z m1 sig_v payload ct2 where
    d: "loads K (message2_bytes K msg2) = Some decoded" and
    u: "unpack 6 decoded = Inr [tag, sess_id, p_sess_id, p_nonce, p_eph_cose, enc_2]" and
    k: "ecdh_cose_to_key K p_eph_cose = Inr p_eph_key" and
    p: "private_key (session c1) = Some session_key" and
    zc: "ecdh_exchange K session_key p_eph_key = Inr z" and
    rest: "(let m2i = Message2 K sess_id p_sess_id p_nonce p_eph_key (Some (message2_bytes K msg2));
          th2 = message_digest K (message1_bytes K m1 @ data_2 K m2i);
          k2 = derive_key K z 16 (cose_kdf_context K ''AES-CCM-64-64-128'' 16 th2);
          iv2 = derive_key K z 7 (cose_kdf_context K ''IV-Generation'' 7 th2);
          th3 = message_digest K (th2 @ ct2);
          sg = sign1_serialize_signed K (Client.sk c1) (sign_k rc') [] (CMap []) [] th3;
          k3 = derive_key K z 16 (cose_kdf_context K ''AES-CCM-64-64-128'' 16 th3);
          iv3 = derive_key K z 7 (cose_kdf_context K ''IV-Generation'' 7 th3)
      in encrypt0_decrypt K enc_2 k2 iv2 th2 = Inr sig_v \<and>
         sign1_verify K sig_v (server_id c1) th2 = Inr payload \<and>
         msg3 = \<lparr>m3_peer_session_id = p_sess_id, m3_aad_3 = Some th3, m3_signature = Some sg,
               m3_ciphertext = Some (encrypt0_serialize K sg k3 iv3 th3),
               m3_bytes_object = None\<rparr> \<and>
         c = c1\<lparr>session := (session c1)\<lparr>shared_secret := Some z\<rparr>,
                message2 := Some (m2i\<lparr>m2_aad_2 := Some th2\<rparr>), message3 := Some msg3\<rparr> \<and>
         out2 = [''Client AAD2 = '' @ hex th2, ''Client K2 = '' @ hex k2,
                ''Client IV2 = '' @ hex iv2, ''Client AAD3 = '' @ hex th3,
                ''Client K3 = '' @ hex k3, ''Client IV3 = '' @ hex iv3])"
    by blast
  from d have dec: "decoded = ?v2" unfolding b2 l2 by simp
  from u have fields: "p_sess_id = CBytes (urandom_2 rs)"
      "p_eph_cose = CBytes (ecdh_key_to_cose_encoded K ?ps)"
    unfolding dec unpack_array by simp_all
  from k have pk: "p_eph_key = ?ps"
    unfolding fields ecdh_cose_roundtrip [OF codec] by (simp split: if_splits)
  from p have sk: "session_key = ?kc" unfolding c1 by simp
  obtain th3 sg3 k3 iv3 where
    m3: "msg3 = \<lparr>m3_peer_session_id = CBytes (urandom_2 rs), m3_aad_3 = Some th3,
               m3_signature = Some sg3,
               m3_ciphertext = Some (encrypt0_serialize K sg3 k3 iv3 th3),
               m3_bytes_object = None\<rparr>"
    using rest unfolding Let_def fields by blast
  obtain m2c where cfin: "c = c1\<lparr>session := (session c1)\<lparr>shared_secret := Some z\<rparr>,
                message2 := Some m2c, message3 := Some msg3\<rparr>"
     and m2c: "m2_bytes_object m2c = Some (message2_bytes K msg2)"
    using rest unfolding Let_def by (auto simp: Message2_def)
  \<comment> \<open>the server's last step\<close>
  let ?ct3 = "encrypt0_serialize K sg3 k3 iv3 th3"
  let ?v3 = "CArray [CInt EDHOC_MSG_3, CBytes (urandom_2 rs), CBytes ?ct3]"
  have b3: "message3_bytes K msg3 = dumps K ?v3"
    by (simp add: m3 message3_bytes_def)
  have l3: "loads K (dumps K ?v3) = Some ?v3"
    using codec by (rule loads_dumps) simp
  from on_msg_3_success [OF e] obtain p3 th3' where
    sfin: "s = s1\<lparr>message3 := Some ((Message3 K p3 (Some (message3_bytes K msg3)))
                     \<lparr>m3_aad_3 := Some th3'\<rparr>)\<rparr>"
    unfolding Let_def by blast
  have ct3: "m3_ciphertext (Message3 K p3 (Some (message3_bytes K msg3))) = Some ?ct3"
    unfolding b3 by (simp add: Message3_def l3)
  let ?m3s = "(Message3 K p3 (Some (message3_bytes K msg3)))\<lparr>m3_aad_3 := Some th3'\<rparr>"
  have x1: "ecdh_exchange K ?kc ?ps = Inr z" using zc sk pk by simp
  have x2: "ecdh_exchange K ?ks ?pc = Inr z'" using zs m1s by simp
  have s1': "shared_secret (session c) = Some z" "private_key (session c) = Some ?kc"
      "message1 c = Some msg1" "message2 c = Some m2c" "message3 c = Some msg3"
      "oscore_context_cached c = oscore_context_cached c0"
    by (simp_all add: cfin c1)
  have s2': "shared_secret (session s) = Some z'" "private_key (session s) = Some ?ks"
      "message1 s = Some m1s" "message2 s = Some msg2" "message3 s = Some ?m3s"
      "oscore_context_cached s = oscore_context_cached s0"
    by (simp_all add: sfin s1)
  have e1: "message1_bytes K msg1 = message1_bytes K m1s"
    by (simp add: m1s message1_bytes_def)
  have e2: "message2_bytes K m2c = message2_bytes K msg2"
    by (simp add: m2c message2_bytes_def)
  have e3: "message3_bytes K msg3 = message3_bytes K ?m3s"
    by (simp add: message3_bytes_def Message3_def)
  have a3: "m3_aad_3 ?m3s = Some th3'" "m3_ciphertext ?m3s = Some ?ct3"
      "m3_aad_3 msg3 = Some th3" "m3_ciphertext msg3 = Some ?ct3"
    using ct3 by (simp_all add: m3)
  show ?thesis
    using x1 x2 s1' s2' e1 e2 e3 a3 by blast
qed

section \<open>The steps of a run: when a call succeeds\<close>

lemma encrypt0_roundtrip:
  assumes "codec_ok K" and "aead_ok K"
  shows "encrypt0_decrypt K (CBytes (encrypt0_serialize K payload key iv aad)) key iv aad = Inr payload"
proof -
  let ?v = "CArray [CBytes [], CMap [(CInt 1, CInt 10), (CInt 5, CBytes iv)],
              CBytes (aead_encrypt K key iv payload (Enc_structure K [] aad))]"
  have "loads K (dumps K ?v) = Some ?v"
    using assms(1) by (rule loads_dumps) simp
  moreover have "aead_decrypt K key iv (aead_encrypt K key iv payload (Enc_structure K [] aad))
                   (Enc_structure K [] aad) = Some payload"
    using assms(2) by (simp add: aead_ok_def)
  ultimately show ?thesis
    by (simp add: encrypt0_decrypt_def encrypt0_serialize_def)
qed

lemma sign1_roundtrip:
  assumes "codec_ok K" and "ecdsa_ok K" and "wf_cbor unprotected"
  shows "sign1_verify K (sign1_serialize_signed K key k protected unprotected payload aad)
           (get_verifying_key K key) aad = Inr payload"
proof -
  let ?d = "sha256 K (Sig_structure K protected aad payload)"
  let ?v = "CArray [CBytes protected, unprotected, CBytes payload, CBytes (ecdsa_sign K key k ?d)]"
  have "loads K (dumps K ?v) = Some ?v"
    using assms(1) by (rule loads_dumps) (simp add: assms(3))
  moreover have "ecdsa_verify K (get_verifying_key K key) ?d (ecdsa_sign K key k ?d)"
    using assms(2) by (simp add: ecdsa_ok_def)
  ultimately show ?thesis
    by (simp add: sign1_verify_def sign1_serialize_signed_def)
qed

lemma on_msg_1_honest:
  assumes "codec_ok K" and "keygen_ok K"
  shows "\<exists>m2 s1 out. on_msg_1 K rnd s (message1_bytes K (Message1 sid nonce (ec_public_key K a)))
           = (Inr (Reply2 m2), s1, out)"
proof -
  have l: "load_elliptic_curve_public_numbers K (ec_public_key K a)"
    using assms(2) by (simp add: keygen_ok_def)
  obtain z where z: "ecdh_exchange K (generate_private_key rnd) (ec_public_key K a) = Inr z"
    using assms(2) unfolding keygen_ok_def by blast
  show ?thesis
    by (simp add: on_msg_1_def message1_from_bytes_roundtrip [OF assms(1)] l z Let_def
        aad_2_def message2_sign_def message2_encrypt_def Message2_def split: prod.splits)
qed

lemma on_msg_3_accepts:
  assumes codec: "codec_ok K" and aead: "aead_ok K" and ecdsa: "ecdsa_ok K"
    and st: "message1 s = Some m1" "message2 s = Some m2" "m2_ciphertext m2 = Some ct2"
            "shared_secret (session s) = Some z"
    and peer: "client_id s = get_verifying_key K key"
    and wf: "wf_cbor p_sess_id" "wf_cbor unprotected"
    and th3: "th3 = message_digest K (message_digest K (message1_bytes K m1 @ data_2 K m2) @ ct2)"
    and k3: "k3 = derive_key K z 16 (cose_kdf_context K ''AES-CCM-64-64-128'' 16 th3)"
    and iv3: "iv3 = derive_key K z 7 (cose_kdf_context K ''IV-Generation'' 7 th3)"
  shows "fst (on_msg_3 K s (dumps K (CArray [CInt EDHOC_MSG_3, p_sess_id,
            CBytes (encrypt0_serialize K
              (sign1_serialize_signed K key k protected unprotected payload th3) k3 iv3 th3)])))
         = Inr MessageOk"
proof -
  let ?sg = "sign1_serialize_signed K key k protected unprotected payload th3"
  let ?v = "CArray [CInt EDHOC_MSG_3, p_sess_id, CBytes (encrypt0_serialize K ?sg k3 iv3 th3)]"
  have l: "loads K (dumps K ?v) = Some ?v"
    using codec by (rule loads_dumps) (simp add: wf)
  have d: "encrypt0_decrypt K (CBytes (encrypt0_serialize K ?sg k3 iv3 th3)) k3 iv3 th3 = Inr ?sg"
    using codec aead by (rule encrypt0_roundtrip)
  have v: "sign1_verify K ?sg (get_verifying_key K key) th3 = Inr payload"
    using codec ecdsa wf(2) by (rule sign1_roundtrip)
  show ?thesis
    using d v
    by (simp add: on_msg_3_def l unpack_array st aad_3_def aad_2_def Let_def peer
        th3 [symmetric] k3 [symmetric] iv3 [symmetric])
qed

lemma continue_edhoc_honest:
  assumes codec: "codec_ok K" and aead: "aead_ok K" and ecdsa: "ecdsa_ok K"
    and load: "load_elliptic_curve_public_numbers K key_v"
    and c: "private_key (session c) = Some session_key" "message1 c = Some m1"
           "server_id c = get_verifying_key K key"
    and z: "ecdh_exchange K session_key key_v = Inr z"
    and wf: "wf_cbor sess_id" "wf_cbor p_sess_id" "wf_cbor p_nonce"
    and th2: "th2 = message_digest K (message1_bytes K m1 @
                dumps K (CArray [CInt EDHOC_MSG_2, sess_id, p_sess_id, p_nonce,
                                 CBytes (ecdh_key_to_cose_encoded K key_v)]))"
    and k2: "k2 = derive_key K z 16 (cose_kdf_context K ''AES-CCM-64-64-128'' 16 th2)"
    and iv2: "iv2 = derive_key K z 7 (cose_kdf_context K ''IV-Generation'' 7 th2)"
    and sg: "sg = sign1_serialize_signed K key k [] (CMap []) [] th2"
    and m2: "m2 = \<lparr>m2_session_id = sess_id, m2_peer_session_id = p_sess_id,
                   m2_peer_nonce = p_nonce, m2_peer_ephemeral_key = key_v,
                   m2_aad_2 = a, m2_signature = b,
                   m2_ciphertext = Some (encrypt0_serialize K sg k2 iv2 th2),
                   m2_bytes_object = None\<rparr>"
    and th3: "th3 = message_digest K (th2 @ encrypt0_serialize K sg k2 iv2 th2)"
    and k3: "k3 = derive_key K z 16 (cose_kdf_context K ''AES-CCM-64-64-128'' 16 th3)"
    and iv3: "iv3 = derive_key K z 7 (cose_kdf_context K ''IV-Generation'' 7 th3)"
    and sg3: "sg3 = sign1_serialize_signed K (Client.sk c) (sign_k rnd) [] (CMap []) [] th3"
  shows "\<exists>c2 out. continue_edhoc K rnd c (message2_bytes K m2) =
           (Inr \<lparr>m3_peer_session_id = p_sess_id, m3_aad_3 = Some th3, m3_signature = Some sg3,
                  m3_ciphertext = Some (encrypt0_serialize K sg3 k3 iv3 th3),
                  m3_bytes_object = None\<rparr>, c2, out)"
proof -
  let ?ct = "encrypt0_serialize K sg k2 iv2 th2"
  let ?v = "CArray [CInt EDHOC_MSG_2, sess_id, p_sess_id, p_nonce,
                    CBytes (ecdh_key_to_cose_encoded K key_v), CBytes ?ct]"
  have b: "message2_bytes K m2 = dumps K ?v"
    by (simp add: m2 message2_bytes_def)
  have l: "loads K (dumps K ?v) = Some ?v"
    using codec by (rule loads_dumps) (simp add: wf)
  have kk: "ecdh_cose_to_key K (CBytes (ecdh_key_to_cose_encoded K key_v)) = Inr key_v"
    using load by (simp add: ecdh_cose_roundtrip [OF codec])
  have d: "encrypt0_decrypt K (CBytes ?ct) k2 iv2 th2 = Inr sg"
    using codec aead by (rule encrypt0_roundtrip)
  have v: "sign1_verify K sg (get_verifying_key K key) th2 = Inr []"
    unfolding sg using codec ecdsa by (rule sign1_roundtrip) simp
  have ct: "m2_ciphertext (Message2 K sess_id p_sess_id p_nonce key_v (Some (dumps K ?v))) = Some ?ct"
    by (simp add: Message2_def l)
  have dd: "data_2 K (Message2 K sess_id p_sess_id p_nonce key_v (Some (dumps K ?v))) =
            dumps K (CArray [CInt EDHOC_MSG_2, sess_id, p_sess_id, p_nonce,
                             CBytes (ecdh_key_to_cose_encoded K key_v)])"
    by (simp add: data_2_def Message2_def)
  show ?thesis
    unfolding b
    using d v
    by (simp add: continue_edhoc_def l unpack_array kk c z Let_def aad_2_def aad_3_def ct dd
        th2 [symmetric] k2 [symmetric] iv2 [symmetric] message3_sign_def message3_encrypt_def
        Message3_def th3 [symmetric] k3 [symmetric] iv3 [symmetric] sg3 [symmetric]
        split: prod.splits)
qed

lemma on_receive_first:
  assumes "loads K m = Some (CArray (CInt EDHOC_MSG_1 # xs))"
  shows "fst (on_receive K rnd s m) = fst (on_msg_1 K rnd s m) \<and>
         fst (snd (on_receive K rnd s m)) = fst (snd (on_msg_1 K rnd s m))"
  using assms by (simp add: on_receive_def seq_getitem_def Let_def split: prod.splits)

lemma on_receive_third:
  assumes "loads K m = Some (CArray (CInt EDHOC_MSG_3 # xs))"
  shows "fst (on_receive K rnd s m) = fst (on_msg_3 K s m) \<and>
         fst (snd (on_receive K rnd s m)) = fst (snd (on_msg_3 K s m))"
  using assms
  by (simp add: on_receive_def seq_getitem_def Let_def EDHOC_MSG_1_def EDHOC_MSG_3_def
      split: prod.splits)

lemma edhoc_run_completes:
  assumes codec: "codec_ok K" and ecdh: "ecdh_ok K" and keygen: "keygen_ok K"
    and aead: "aead_ok K" and ecdsa: "ecdsa_ok K"
    and ids: "server_id c0 = get_verifying_key K (Server.sk s0)"
             "client_id s0 = get_verifying_key K (Client.sk c0)"
  shows "\<exists>c s. edhoc_run K rc rs rc' c0 s0 = Some (c, s)"
proof -
  let ?kc = "generate_private_key rc" and ?ks = "generate_private_key rs"
  let ?pc = "ec_public_key K (generate_private_key rc)"
  let ?ps = "ec_public_key K (generate_private_key rs)"
  let ?msg1 = "Message1 (urandom_2 rc) (urandom_8 rc) ?pc"
  let ?c1 = "c0\<lparr>session := (session c0)\<lparr>id' := Some (urandom_2 rc),
                 private_key := Some ?kc, public_key := Some ?pc\<rparr>,
               message1 := Some ?msg1\<rparr>"
  let ?b1 = "message1_bytes K ?msg1"
  have i: "initiate_edhoc K rc c0 = (?msg1, ?c1)"
    by (simp add: initiate_edhoc_def Let_def)
  \<comment> \<open>the server answers the first message\<close>
  from on_msg_1_honest [OF codec keygen] obtain m2 s1 out1 where
    a: "on_msg_1 K rs s0 ?b1 = (Inr (Reply2 m2), s1, out1)"
    by blast
  from on_msg_1_success [OF a] obtain m1s z th2 sg k2 iv2 where
    f: "message1_from_bytes K ?b1 = Inr m1s" and
    zs: "ecdh_exchange K ?ks (m1_ephemeral_key m1s) = Inr z" and
    th2: "th2 = message_digest K (message1_bytes K m1s @ data_2 K m2)" and
    sg: "sg = sign1_serialize_signed K (Server.sk s0) (sign_k rs) [] (CMap []) [] th2" and
    k2: "k2 = derive_key K z 16 (cose_kdf_context K ''AES-CCM-64-64-128'' 16 th2)" and
    iv2: "iv2 = derive_key K z 7 (cose_kdf_context K ''IV-Generation'' 7 th2)" and
    m2: "m2 = \<lparr>m2_session_id = m1_session_id m1s, m2_peer_session_id = CBytes (urandom_2 rs),
           m2_peer_nonce = CBytes (urandom_8 rs), m2_peer_ephemeral_key = ?ps,
           m2_aad_2 = Some th2, m2_signature = Some sg,
           m2_ciphertext = Some (encrypt0_serialize K sg k2 iv2 th2),
           m2_bytes_object = None\<rparr>" and
    s1: "s1 = s0\<lparr>message1 := Some m1s,
            session := (session s0)\<lparr>id' := Some (urandom_2 rs),
               private_key := Some ?ks, public_key := Some ?ps, shared_secret := Some z\<rparr>,
            message2 := Some m2\<rparr>"
    by blast
  from f have m1s: "m1s = \<lparr>m1_session_id = CBytes (urandom_2 rc), m1_nonce = CBytes (urandom_8 rc),
        m1_ephemeral_key = ?pc, m1_bytes_object = Some ?b1\<rparr>"
    unfolding message1_from_bytes_roundtrip [OF codec] by (simp split: if_splits)
  have l1: "loads K ?b1 = Some (CArray (CInt EDHOC_MSG_1 #
      [CBytes (urandom_2 rc), CBytes (urandom_8 rc), CBytes (ecdh_key_to_cose_encoded K ?pc)]))"
    unfolding message1_bytes_def Message1_def
    using codec by (simp add: loads_dumps)
  obtain o1 where r1: "on_receive K rs s0 ?b1 = (Inr (Reply2 m2), s1, o1)"
    using on_receive_first [OF l1, of rs s0] a
    by (cases "on_receive K rs s0 ?b1") simp
  \<comment> \<open>the client continues\<close>
  have zc: "ecdh_exchange K ?kc ?ps = Inr z"
    using ecdh zs unfolding ecdh_ok_def m1s by simp
  have lv: "load_elliptic_curve_public_numbers K ?ps"
    using keygen by (simp add: keygen_ok_def)
  have e1: "message1_bytes K m1s = ?b1"
    by (simp add: m1s message1_bytes_def)
  have th2': "th2 = message_digest K (?b1 @
                dumps K (CArray [CInt EDHOC_MSG_2, CBytes (urandom_2 rc), CBytes (urandom_2 rs),
                  CBytes (urandom_8 rs), CBytes (ecdh_key_to_cose_encoded K ?ps)]))"
    unfolding th2 e1 by (simp add: data_2_def m2 m1s)
  define th3 where "th3 = message_digest K (th2 @ encrypt0_serialize K sg k2 iv2 th2)"
  define k3 where "k3 = derive_key K z 16 (cose_kdf_context K ''AES-CCM-64-64-128'' 16 th3)"
  define iv3 where "iv3 = derive_key K z 7 (cose_kdf_context K ''IV-Generation'' 7 th3)"
  define sg3 where "sg3 = sign1_serialize_signed K (Client.sk ?c1) (sign_k rc') [] (CMap []) [] th3"
  define m3 where "m3 = \<lparr>m3_peer_session_id = CBytes (urandom_2 rs), m3_aad_3 = Some th3,
      m3_signature = Some sg3, m3_ciphertext = Some (encrypt0_serialize K sg3 k3 iv3 th3),
      m3_bytes_object = None\<rparr>"
  have "\<exists>c2 out. continue_edhoc K rc' ?c1 (message2_bytes K m2) = (Inr m3, c2, out)"
    unfolding m3_def
    by (rule continue_edhoc_honest [OF codec aead ecdsa lv _ _ _ zc _ _ _ th2' k2 iv2 sg _
          th3_def k3_def iv3_def sg3_def])
       (simp_all add: ids m2 m1s)
  then obtain c2 out2 where b: "continue_edhoc K rc' ?c1 (message2_bytes K m2) = (Inr m3, c2, out2)"
    by blast
  \<comment> \<open>the server accepts the third message\<close>
  let ?v3 = "CArray [CInt EDHOC_MSG_3, CBytes (urandom_2 rs),
               CBytes (encrypt0_serialize K sg3 k3 iv3 th3)]"
  have b3: "message3_bytes K m3 = dumps K ?v3"
    by (simp add: m3_def message3_bytes_def)
  have l3: "loads K (dumps K ?v3) = Some (CArray (CInt EDHOC_MSG_3 #
      [CBytes (urandom_2 rs), CBytes (encrypt0_serialize K sg3 k3 iv3 th3)]))"
    using codec by (simp add: loads_dumps)
  have th3s: "th3 = message_digest K (message_digest K (message1_bytes K m1s @ data_2 K m2)
                 @ encrypt0_serialize K sg k2 iv2 th2)"
    unfolding th3_def th2 ..
  have acc: "fst (on_msg_3 K s1 (dumps K ?v3)) = Inr MessageOk"
    unfolding sg3_def
    by (rule on_msg_3_accepts [OF codec aead ecdsa _ _ _ _ _ _ _ th3s k3_def iv3_def])
       (simp_all add: s1 m2 ids)
  obtain s2 o3 where r3: "on_receive K rs s1 (message3_bytes K m3) = (Inr MessageOk, s2, o3)"
    unfolding b3 using on_receive_third [OF l3, of rs s1] acc
    by (cases "on_receive K rs s1 (dumps K ?v3)") simp
  show ?thesis
    by (simp add: edhoc_run_def i r1 b r3)
qed

section \<open>The OSCORE context\<close>

lemma oscore_context_value:
  assumes "oscore_context_cached s = None"
    and "message1 s = Some m1" "message2 s = Some m2" "message3 s = Some m3"
    and "shared_secret (session s) = Some z"
  shows "fst (oscore_context K s) =
     Inr \<lparr>master_secret = hkdf_derive K z 16
            (cose_kdf_context K ''EDHOC OSCORE Master Secret'' 16
               (sha256 K (sha256 K (message1_bytes K m1 @ message2_bytes K m2)
                          @ message3_bytes K m3))),
          master_salt = hkdf_derive K z 7
            (cose_kdf_context K ''EDHOC OSCORE Master Salt'' 7
               (sha256 K (sha256 K (message1_bytes K m1 @ message2_bytes K m2)
                          @ message3_bytes K m3)))\<rparr>"
  using assms by (simp add: oscore_context_def Let_def derive_key_def message_digest_def)

lemma oscore_context_again:
  "oscore_context K (snd (oscore_context K s)) = (fst (oscore_context K s), snd (oscore_context K s))"
  by (auto simp: oscore_context_def Let_def split: option.splits)

lemma toy_ids:
  "server_id client0 = get_verifying_key toy (Server.sk server0)"
  "client_id server0 = get_verifying_key toy (Client.sk client0)"
  "oscore_context_cached client0 = None" "oscore_context_cached server0 = None"
  by (simp_all add: client0_def server0_def Client_init_def Server_init_def toy_simps)

lemma toy_run_eq: "edhoc_run toy rnd_u rnd_v rnd_u client0 server0 = Some (toy_client, toy_server)"
proof -
  obtain c s where h: "edhoc_run toy rnd_u rnd_v rnd_u client0 server0 = Some (c, s)"
    using edhoc_run_completes [OF toy_codec_ok toy_ecdh_ok toy_keygen_ok toy_aead_ok toy_ecdsa_ok
        toy_ids(1,2)] by blast
  then show ?thesis by (simp add: toy_client_def toy_server_def toy_run_def)
qed

lemma toy_run_Some: "toy_run = Some (toy_client, toy_server)"
  unfolding toy_run_def by (rule toy_run_eq)

lemma run_contexts_agree:
  assumes codec: "codec_ok K" and ecdh: "ecdh_ok K"
    and fresh: "oscore_context_cached c0 = None" "oscore_context_cached s0 = None"
    and run: "edhoc_run K rc rs rc' c0 s0 = Some (c, s)"
  shows "\<exists>ctx. fst (oscore_context K c) = Inr ctx \<and> fst (oscore_context K s) = Inr ctx"
proof -
  from edhoc_run_final [OF codec run] obtain z z' m1c m1s m2c m2s m3c m3s where
    x: "ecdh_exchange K (generate_private_key rc) (ec_public_key K (generate_private_key rs)) = Inr z"
       "ecdh_exchange K (generate_private_key rs) (ec_public_key K (generate_private_key rc)) = Inr z'"
    and st: "shared_secret (session c) = Some z" "shared_secret (session s) = Some z'"
      "message1 c = Some m1c" "message1 s = Some m1s"
      "message2 c = Some m2c" "message2 s = Some m2s"
      "message3 c = Some m3c" "message3 s = Some m3s"
    and eq: "message1_bytes K m1c = message1_bytes K m1s"
      "message2_bytes K m2c = message2_bytes K m2s"
      "message3_bytes K m3c = message3_bytes K m3s"
    and ca: "oscore_context_cached c = oscore_context_cached c0"
      "oscore_context_cached s = oscore_context_cached s0"
    by blast
  have zz: "z = z'" using x ecdh unfolding ecdh_ok_def by (metis sum.inject(2))
  have "fst (oscore_context K c) = fst (oscore_context K s)"
    using oscore_context_value [of c m1c m2c m3c z K] oscore_context_value [of s m1s m2s m3s z' K]
      st ca fresh eq zz by simp
  moreover have "\<exists>ctx. fst (oscore_context K s) = Inr ctx"
    using oscore_context_value [of s m1s m2s m3s z' K] st ca fresh by simp
  ultimately show ?thesis by auto
qed

lemma oscore_context_read:
  fixes s :: Server
  assumes "fst (oscore_context K s) = Inr ctx"
  shows "oscore_context_cached (snd (oscore_context K s)) = Some ctx"
    and "Server.sk (snd (oscore_context K s)) = Server.sk s"
    and "client_id (snd (oscore_context K s)) = client_id s"
  using assms
  by (auto simp: oscore_context_def Let_def split: option.splits)

lemma oscore_context_cached_value:
  "oscore_context_cached s = Some ctx \<Longrightarrow> fst (oscore_context K s) = Inr ctx"
  by (simp add: oscore_context_def)

lemma edhoc_run_keeps:
  assumes "edhoc_run K rc rs rc' c0 s0 = Some (c, s)"
  shows "Server.sk s = Server.sk s0" and "client_id s = client_id s0"
    and "oscore_context_cached s = oscore_context_cached s0"
    and "oscore_context_cached c = oscore_context_cached c0"
proof -
  from edhoc_run_success [OF assms] obtain msg1 c1 msg2 s1 out1 msg3 out2 out3 where
    i: "initiate_edhoc K rc c0 = (msg1, c1)" and
    a: "on_msg_1 K rs s0 (message1_bytes K msg1) = (Inr (Reply2 msg2), s1, out1)" and
    b: "continue_edhoc K rc' c1 (message2_bytes K msg2) = (Inr msg3, c, out2)" and
    e: "on_msg_3 K s1 (message3_bytes K msg3) = (Inr MessageOk, s, out3)"
    by blast
  from on_msg_1_success [OF a] obtain m1 z where
    "s1 = s0\<lparr>message1 := Some m1,
            session := (session s0)\<lparr>id' := Some (urandom_2 rs),
               private_key := Some (generate_private_key rs),
               public_key := Some (ec_public_key K (generate_private_key rs)),
               shared_secret := Some z\<rparr>,
            message2 := Some msg2\<rparr>"
    by blast
  then have "Server.sk s1 = Server.sk s0" "client_id s1 = client_id s0"
    "oscore_context_cached s1 = oscore_context_cached s0"
    by simp_all
  with on_msg_3_keeps [OF e] show "Server.sk s = Server.sk s0" "client_id s = client_id s0"
    "oscore_context_cached s = oscore_context_cached s0"
    by simp_all
  from i have "oscore_context_cached c1 = oscore_context_cached c0"
    by (auto simp: initiate_edhoc_def Let_def)
  moreover from continue_edhoc_success [OF b] have "oscore_context_cached c = oscore_context_cached c1"
    by (auto simp: Let_def)
  ultimately show "oscore_context_cached c = oscore_context_cached c0"
    by simp
qed

lemma enc_nat_small: "n < 255 \<Longrightarrow> enc_nat n = [of_nat n]"
  by (simp add: enc_nat.simps)

lemma toy_context_value:
  "\<lparr>master_secret = hkdf_derive toy [a] 16
       (cose_kdf_context toy ''EDHOC OSCORE Master Secret'' 16 h),
    master_salt = hkdf_derive toy [a] 7
       (cose_kdf_context toy ''EDHOC OSCORE Master Salt'' 7 h)\<rparr> =
   \<lparr>master_secret = [a, 5, 4, 2, 26, 69, 68, 72, 79, 67, 32, 79, 83, 67, 79, 82],
    master_salt = [a, 5, 4, 2, 24, 69, 68]\<rparr>"
  by (simp add: toy_simps cose_kdf_context_def toy_dumps_def toy_hkdf_def enc_nat_small)

lemma toy_run_context:
  assumes "edhoc_run toy rc rs rc' c0 s0 = Some (c, s)"
    and "oscore_context_cached c0 = None"
  shows "fst (oscore_context toy c) =
     Inr \<lparr>master_secret =
            [of_nat (generate_private_key rc * generate_private_key rs),
             5, 4, 2, 26, 69, 68, 72, 79, 67, 32, 79, 83, 67, 79, 82],
          master_salt =
            [of_nat (generate_private_key rc * generate_private_key rs), 5, 4, 2, 24, 69, 68]\<rparr>"
proof -
  from edhoc_run_final [OF toy_codec_ok assms(1)] obtain z m1c m2c m3c where
    x: "ecdh_exchange toy (generate_private_key rc)
          (ec_public_key toy (generate_private_key rs)) = Inr z"
    and st: "shared_secret (session c) = Some z" "message1 c = Some m1c"
      "message2 c = Some m2c" "message3 c = Some m3c"
    and ca: "oscore_context_cached c = oscore_context_cached c0"
    by blast
  from x have z: "z = [of_nat (generate_private_key rc * generate_private_key rs)]"
    by (auto simp: toy_simps toy_public_key_def)
  show ?thesis
    using oscore_context_value [of c m1c m2c m3c z toy] st ca assms(2)
    unfolding z by (simp only: toy_context_value)
qed

lemma toy_server_context:
  "fst (oscore_context toy toy_server) =
     Inr \<lparr>master_secret = [35, 5, 4, 2, 26, 69, 68, 72, 79, 67, 32, 79, 83, 67, 79, 82],
          master_salt = [35, 5, 4, 2, 24, 69, 68]\<rparr>"
proof -
  from run_contexts_agree [OF toy_codec_ok toy_ecdh_ok toy_ids(3,4) toy_run_eq]
  have "fst (oscore_context toy toy_server) = fst (oscore_context toy toy_client)"
    by auto
  with toy_run_context [OF toy_run_eq toy_ids(3)] show ?thesis
    by (simp add: rnd_u_def rnd_v_def)
qed

lemma toy_server_read:
  "oscore_context_cached toy_server_read =
     Some \<lparr>master_secret = [35, 5, 4, 2, 26, 69, 68, 72, 79, 67, 32, 79, 83, 67, 79, 82],
           master_salt = [35, 5, 4, 2, 24, 69, 68]\<rparr>"
  "server_id client0 = get_verifying_key toy (Server.sk toy_server_read)"
  "client_id toy_server_read = get_verifying_key toy (Client.sk client0)"
  unfolding toy_server_read_def
  using oscore_context_read [OF toy_server_context] edhoc_run_keeps(1,2) [OF toy_run_eq] toy_ids(1,2)
  by simp_all

lemma toy_rerun_eq:
  "edhoc_run toy rnd_w rnd_v rnd_w client0 toy_server_read = Some (toy_client2, toy_server2)"
proof -
  obtain c s where h: "edhoc_run toy rnd_w rnd_v rnd_w client0 toy_server_read = Some (c, s)"
    using edhoc_run_completes [OF toy_codec_ok toy_ecdh_ok toy_keygen_ok toy_aead_ok toy_ecdsa_ok
        toy_server_read(2,3)] by blast
  then show ?thesis by (simp add: toy_client2_def toy_server2_def toy_rerun_def)
qed

text \<open>
  Claim C1, as the specification words it, fails on the code: the property
  \<open>oscore_context\<close> keeps what it computed first and no step of the handshake resets
  it. The server of the first concrete run reads its context; then a new client
  object, drawing other random values, runs the four steps with it. The run
  completes, the client derives the context of the new run and the server still
  answers with the context of the first one: the master secrets and the master salts
  differ.
\<close>

theorem edhoc_run_stale_context_counterexample:
  "toy_rerun = Some (toy_client2, toy_server2) \<and>
   fst (oscore_context toy toy_client2) =
     Inr \<lparr>master_secret = [42, 5, 4, 2, 26, 69, 68, 72, 79, 67, 32, 79, 83, 67, 79, 82],
          master_salt = [42, 5, 4, 2, 24, 69, 68]\<rparr> \<and>
   fst (oscore_context toy toy_server2) =
     Inr \<lparr>master_secret = [35, 5, 4, 2, 26, 69, 68, 72, 79, 67, 32, 79, 83, 67, 79, 82],
          master_salt = [35, 5, 4, 2, 24, 69, 68]\<rparr>"
proof -
  have "fst (oscore_context toy toy_client2) =
     Inr \<lparr>master_secret = [42, 5, 4, 2, 26, 69, 68, 72, 79, 67, 32, 79, 83, 67, 79, 82],
          master_salt = [42, 5, 4, 2, 24, 69, 68]\<rparr>"
    using toy_run_context [OF toy_rerun_eq toy_ids(3)] by (simp add: rnd_w_def rnd_v_def)
  moreover have "oscore_context_cached toy_server2 = oscore_context_cached toy_server_read"
    by (rule edhoc_run_keeps(3) [OF toy_rerun_eq])
  then have "fst (oscore_context toy toy_server2) =
     Inr \<lparr>master_secret = [35, 5, 4, 2, 26, 69, 68, 72, 79, 67, 32, 79, 83, 67, 79, 82],
          master_salt = [35, 5, 4, 2, 24, 69, 68]\<rparr>"
    by (simp add: toy_server_read(1) oscore_context_cached_value)
  moreover have "toy_rerun = Some (toy_client2, toy_server2)"
    unfolding toy_rerun_def by (rule toy_rerun_eq)
  ultimately show ?thesis
    by simp
qed

text \<open>
  Claim C1, amended to what the code does: after a run of the protocol between a
  client and a server that completes (the server answers \<open>MessageOk\<close> to the third
  message), both endpoints derive an OSCORE context, with the same master secret and
  the same master salt, when the run starts from sessions that hold no context yet
  (new objects, or objects whose \<open>oscore_context\<close> was never read). The decoder
  undoes the encoder, and ECDH gives both sides the same secret.
\<close>

theorem edhoc_run_contexts_agree:
  assumes "codec_ok K" and "ecdh_ok K"
    and "oscore_context_cached c0 = None" and "oscore_context_cached s0 = None"
    and "edhoc_run K rc rs rc' c0 s0 = Some (c, s)"
  shows "\<exists>cc cs. fst (oscore_context K c) = Inr cc \<and> fst (oscore_context K s) = Inr cs \<and>
           master_secret cc = master_secret cs \<and> master_salt cc = master_salt cs"
  using run_contexts_agree [OF assms] by auto

theorem edhoc_run_contexts_agree_witness:
  "codec_ok toy \<and> ecdh_ok toy \<and>
   oscore_context_cached client0 = None \<and> oscore_context_cached server0 = None \<and>
   edhoc_run toy rnd_u rnd_v rnd_u client0 server0 = Some (toy_client, toy_server) \<and>
   (\<exists>cc cs. fst (oscore_context toy toy_client) = Inr cc \<and>
            fst (oscore_context toy toy_server) = Inr cs \<and>
            master_secret cc = master_secret cs \<and> master_salt cc = master_salt cs)"
  using edhoc_run_contexts_agree [OF toy_codec_ok toy_ecdh_ok toy_ids(3,4) toy_run_eq]
    toy_codec_ok toy_ecdh_ok toy_ids(3,4) toy_run_eq
  by simp

lemma toy_run_not_None: "toy_run \<noteq> None"
  unfolding toy_run_def using toy_run_eq by simp

lemma toy_final:
  "\<exists>z m1 m2 m3 th3 ct3.
     shared_secret (session toy_server) = Some z \<and>
     private_key (session toy_server) = Some (generate_private_key rnd_v) \<and>
     message1 toy_server = Some m1 \<and> message2 toy_server = Some m2 \<and>
     message3 toy_server = Some m3 \<and> m3_aad_3 m3 = Some th3 \<and> m3_ciphertext m3 = Some ct3 \<and>
     oscore_context_cached toy_server = None"
  using edhoc_run_final [OF toy_codec_ok toy_run_eq] toy_ids(4) by auto

text \<open>
  Claim C2, as the specification states it: the master secret is HKDF of the shared
  secret to 16 bytes with the algorithm \<open>OSCORE Master Secret\<close>, the master salt HKDF to
  8 bytes with the algorithm \<open>OSCORE Master Salt\<close>, both over
  \<open>TH_4 = SHA-256(TH_3 || ciphertext_3)\<close>. After the concrete run the server holds the
  shared secret, \<open>TH_3\<close> and \<open>ciphertext_3\<close>, so the context of the specification is
  defined; the context the code derives is another one (its salt has 7 bytes).
\<close>

theorem oscore_context_spec_counterexample:
  "toy_run \<noteq> None \<and> spec_oscore_context toy toy_server \<noteq> None \<and>
   map_option Inr (spec_oscore_context toy toy_server) \<noteq> Some (fst (oscore_context toy toy_server))"
proof -
  from toy_final obtain z m1 m2 m3 th3 ct3 where
    st: "shared_secret (session toy_server) = Some z" "message1 toy_server = Some m1"
      "message2 toy_server = Some m2" "message3 toy_server = Some m3"
      "m3_aad_3 m3 = Some th3" "m3_ciphertext m3 = Some ct3"
      "oscore_context_cached toy_server = None"
    by blast
  have len: "\<And>ikm n info. length (hkdf_derive toy ikm n info) = n"
    using toy_hkdf_length_ok by (simp add: hkdf_length_ok_def)
  obtain ctx where spec: "spec_oscore_context toy toy_server = Some ctx"
    and l8: "length (master_salt ctx) = 8"
    using st by (simp add: spec_oscore_context_def Let_def len)
  obtain ctx' where code: "fst (oscore_context toy toy_server) = Inr ctx'"
    and l7: "length (master_salt ctx') = 7"
    using oscore_context_value [of toy_server m1 m2 m3 z toy] st by (simp add: len)
  have "ctx \<noteq> ctx'" using l7 l8 by auto
  then have "map_option Inr (spec_oscore_context toy toy_server)
               \<noteq> Some (fst (oscore_context toy toy_server))"
    using spec code by simp
  then show ?thesis using spec toy_run_not_None by simp
qed

text \<open>
  Claim C2, amended: a session that holds its three messages and the shared secret
  \<open>Z\<close>, and has derived no context yet, derives
  \<open>master_secret = HKDF(Z, 16, ctx("EDHOC OSCORE Master Secret", 16, H))\<close> and
  \<open>master_salt = HKDF(Z, 7, ctx("EDHOC OSCORE Master Salt", 7, H))\<close>, where
  \<open>H = SHA-256(SHA-256(MSG1 || MSG2) || MSG3)\<close> is over the bytes of the whole messages,
  and keeps the context.
\<close>

theorem oscore_context_derivation:
  assumes "oscore_context_cached s = None"
    and "message1 s = Some m1" and "message2 s = Some m2" and "message3 s = Some m3"
    and "shared_secret (session s) = Some z"
  shows "oscore_context K s =
     (let h = sha256 K (sha256 K (message1_bytes K m1 @ message2_bytes K m2) @ message3_bytes K m3);
          ctx = \<lparr>master_secret =
                    hkdf_derive K z 16 (cose_kdf_context K ''EDHOC OSCORE Master Secret'' 16 h),
                  master_salt =
                    hkdf_derive K z 7 (cose_kdf_context K ''EDHOC OSCORE Master Salt'' 7 h)\<rparr>
      in (Inr ctx, s\<lparr>oscore_context_cached := Some ctx\<rparr>))"
  using assms by (simp add: oscore_context_def Let_def derive_key_def message_digest_def)

theorem oscore_context_derivation_witness:
  "\<exists>m1 m2 m3 z.
     oscore_context_cached toy_server = None \<and>
     message1 toy_server = Some m1 \<and> message2 toy_server = Some m2 \<and>
     message3 toy_server = Some m3 \<and> shared_secret (session toy_server) = Some z \<and>
     fst (oscore_context toy toy_server) =
       Inr \<lparr>master_secret = hkdf_derive toy z 16
              (cose_kdf_context toy ''EDHOC OSCORE Master Secret'' 16
                (sha256 toy (sha256 toy (message1_bytes toy m1 @ message2_bytes toy m2)
                             @ message3_bytes toy m3))),
            master_salt = hkdf_derive toy z 7
              (cose_kdf_context toy ''EDHOC OSCORE Master Salt'' 7
                (sha256 toy (sha256 toy (message1_bytes toy m1 @ message2_bytes toy m2)
                             @ message3_bytes toy m3)))\<rparr>"
proof -
  from toy_final obtain z m1 m2 m3 where
    st: "oscore_context_cached toy_server = None" "message1 toy_server = Some m1"
      "message2 toy_server = Some m2" "message3 toy_server = Some m3"
      "shared_secret (session toy_server) = Some z"
    by blast
  show ?thesis
    using oscore_context_derivation [OF st, of toy] st by (simp add: Let_def)
qed

section \<open>The ephemeral key after the handshake\<close>

lemma edhoc_run_steps:
  assumes "edhoc_run K rc rs rc' c0 s0 = Some (c, s)"
  shows "\<exists>msg1 c1 msg2 s1 out1 msg3 out2 out3.
     initiate_edhoc K rc c0 = (msg1, c1) \<and>
     on_receive K rs s0 (message1_bytes K msg1) = (Inr (Reply2 msg2), s1, out1) \<and>
     continue_edhoc K rc' c1 (message2_bytes K msg2) = (Inr msg3, c, out2) \<and>
     on_receive K rs s1 (message3_bytes K msg3) = (Inr MessageOk, s, out3)"
proof -
  obtain msg1 c1 where i: "initiate_edhoc K rc c0 = (msg1, c1)"
    by (cases "initiate_edhoc K rc c0")
  obtain r1 s1 o1 where a: "on_receive K rs s0 (message1_bytes K msg1) = (r1, s1, o1)"
    by (cases "on_receive K rs s0 (message1_bytes K msg1)")
  from assms i a obtain msg2 where r1: "r1 = Inr (Reply2 msg2)"
    by (auto simp: edhoc_run_def split: sum.splits reply.splits)
  obtain r2 c2 o2 where b: "continue_edhoc K rc' c1 (message2_bytes K msg2) = (r2, c2, o2)"
    by (cases "continue_edhoc K rc' c1 (message2_bytes K msg2)")
  from assms i a r1 b obtain msg3 where r2: "r2 = Inr msg3"
    by (auto simp: edhoc_run_def split: sum.splits)
  obtain r3 s3 o3 where e: "on_receive K rs s1 (message3_bytes K msg3) = (r3, s3, o3)"
    by (cases "on_receive K rs s1 (message3_bytes K msg3)")
  from assms i a r1 b r2 e have "r3 = Inr MessageOk" "c = c2" "s = s3"
    by (auto simp: edhoc_run_def split: sum.splits reply.splits)
  then show ?thesis using i a r1 b r2 e by blast
qed






section \<open>Encrypting and decrypting with the derived context\<close>

lemma encrypt_value:
  "fst (encrypt K s p) =
     (case fst (oscore_context K s) of
        Inl e \<Rightarrow> Inl e
      | Inr ctx \<Rightarrow> Inr (encrypt0_serialize K p (master_secret ctx) (master_salt ctx) []))"
  using oscore_context_again [of K s]
  by (cases "oscore_context K s") (auto simp: encrypt_def split: sum.splits prod.splits)

lemma decrypt_value:
  "fst (decrypt K s ct) =
     (case fst (oscore_context K s) of
        Inl e \<Rightarrow> Inl e
      | Inr ctx \<Rightarrow> encrypt0_decrypt K (CBytes ct) (master_secret ctx) (master_salt ctx) [])"
  using oscore_context_again [of K s]
  by (cases "oscore_context K s") (auto simp: decrypt_def split: sum.splits prod.splits)

lemma encrypt_state:
  "snd (encrypt K s p) = snd (oscore_context K s)"
  using oscore_context_again [of K s]
  by (cases "oscore_context K s") (auto simp: encrypt_def split: sum.splits prod.splits)

lemma oscore_context_fst_again:
  "fst (oscore_context K (snd (oscore_context K s))) = fst (oscore_context K s)"
  by (simp add: oscore_context_again)

lemma encrypt_decrypt:
  assumes "codec_ok K" and "aead_ok K"
    and "fst (oscore_context K a) = Inr ctx" and "fst (oscore_context K b) = Inr ctx"
  shows "\<exists>ct. fst (encrypt K a m) = Inr ct \<and> fst (decrypt K b ct) = Inr m"
  using assms by (simp add: encrypt_value decrypt_value encrypt0_roundtrip)

text \<open>
  Claim C4: for two endpoints whose sessions derive the same OSCORE context and every
  plaintext, what one endpoint encrypts the other decrypts to the plaintext, in both
  directions. The decoder undoes the encoder and the AEAD decrypts what it encrypted.
\<close>

theorem encrypt_decrypt_across:
  assumes "codec_ok K" and "aead_ok K"
    and "fst (oscore_context K a) = Inr ctx" and "fst (oscore_context K b) = Inr ctx"
  shows "(\<exists>ct. fst (encrypt K a m) = Inr ct \<and> fst (decrypt K b ct) = Inr m) \<and>
         (\<exists>ct. fst (encrypt K b m) = Inr ct \<and> fst (decrypt K a ct) = Inr m)"
  using encrypt_decrypt [OF assms] encrypt_decrypt [OF assms(1,2,4,3)] by simp

theorem encrypt_decrypt_across_witness:
  "\<exists>ctx. codec_ok toy \<and> aead_ok toy \<and>
     fst (oscore_context toy toy_client) = Inr ctx \<and>
     fst (oscore_context toy toy_server) = Inr ctx \<and>
     (\<exists>ct. fst (encrypt toy toy_server (ascii ''hello from server'')) = Inr ct \<and>
           fst (decrypt toy toy_client ct) = Inr (ascii ''hello from server'')) \<and>
     (\<exists>ct. fst (encrypt toy toy_client (ascii ''hello from server'')) = Inr ct \<and>
           fst (decrypt toy toy_server ct) = Inr (ascii ''hello from server''))"
proof -
  from run_contexts_agree [OF toy_codec_ok toy_ecdh_ok toy_ids(3,4) toy_run_eq]
  obtain ctx where c: "fst (oscore_context toy toy_client) = Inr ctx"
    "fst (oscore_context toy toy_server) = Inr ctx"
    by blast
  show ?thesis
    using encrypt_decrypt_across [OF toy_codec_ok toy_aead_ok c(2) c(1),
        of "ascii ''hello from server''"] c toy_codec_ok toy_aead_ok
    by blast
qed

text \<open>
  Claim C10: \<open>encrypt\<close> uses the master salt of the session's OSCORE context as the IV
  and its master secret as the key, and nothing that changes from call to call: a
  second call on the session the first call left, with the same payload, returns the
  same bytes (or raises the same error, for a session that cannot derive a context).
\<close>

theorem encrypt_deterministic:
  "fst (encrypt K (snd (encrypt K s p)) p) = fst (encrypt K s p) \<and>
   fst (encrypt K s p) =
     (case fst (oscore_context K s) of
        Inl e \<Rightarrow> Inl e
      | Inr ctx \<Rightarrow> Inr (encrypt0_serialize K p (master_secret ctx) (master_salt ctx) []))"
  by (simp add: encrypt_value encrypt_state oscore_context_fst_again)

theorem encrypt_deterministic_witness:
  "\<exists>ct. fst (encrypt toy toy_server [1, 2, 3]) = Inr ct \<and>
        fst (encrypt toy (snd (encrypt toy toy_server [1, 2, 3])) [1, 2, 3]) = Inr ct"
proof -
  from run_contexts_agree [OF toy_codec_ok toy_ecdh_ok toy_ids(3,4) toy_run_eq]
  obtain ctx where c: "fst (oscore_context toy toy_server) = Inr ctx"
    by blast
  then have "\<exists>ct. fst (encrypt toy toy_server [1, 2, 3]) = Inr ct"
    by (simp add: encrypt_value)
  then show ?thesis
    using encrypt_deterministic [of toy toy_server "[1, 2, 3]"] by auto
qed

section \<open>The keys of the handshake and the peer of the third message\<close>

lemma toy_first_output:
  "snd (snd (on_receive toy rnd_v server0 toy_first_message)) =
     [''Server Received:  05040000010102010201080102030405060708011a060400000100000200010100000100010200000500010300000a'',
      ''Server AAD2 = 6219'', ''Server K2 = 23050402114145532d43434d2d36342d'',
      ''Server IV2 = 230504020d4956'']"
  by code_simp

lemma toy_sent2_secret: "shared_secret (session toy_server_sent2) = Some [35]"
  by code_simp

lemma toy_sent2_aad: "map_option m2_aad_2 (message2 toy_server_sent2) = Some (Some [98, 25])"
  by code_simp

lemma toy_spec_keys:
  "hex (spec_K toy [35] [98, 25]) = ''23050402114145532d43434d2d31362d''"
  "hex (spec_IV toy [35] [98, 25]) = ''230504020d49562d47454e4552''"
  by code_simp+

lemma toy_third_accepted:
  "fst (on_receive toy rnd_v toy_server_sent2
         (message3_with_kid toy toy_server_sent2 3 11 (ascii ''nobody''))) = Inr MessageOk"
  by code_simp

lemma on_msg_1_state:
  assumes "on_msg_1 K rnd s b = (Inr (Reply2 m2), s1, out)"
  shows "\<exists>m1 ct2 z.
     message1 s1 = Some m1 \<and> message2 s1 = Some m2 \<and> m2_ciphertext m2 = Some ct2 \<and>
     shared_secret (session s1) = Some z \<and> wf_cbor (m2_peer_session_id m2) \<and>
     client_id s1 = client_id s"
proof -
  from on_msg_1_success [OF assms]
  obtain m1 z th2 sg k2 iv2 where
    m2: "m2 = \<lparr>m2_session_id = m1_session_id m1, m2_peer_session_id = CBytes (urandom_2 rnd),
           m2_peer_nonce = CBytes (urandom_8 rnd),
           m2_peer_ephemeral_key = ec_public_key K (generate_private_key rnd),
           m2_aad_2 = Some th2, m2_signature = Some sg,
           m2_ciphertext = Some (encrypt0_serialize K sg k2 iv2 th2),
           m2_bytes_object = None\<rparr>" and
    s1: "s1 = s\<lparr>message1 := Some m1,
            session := (session s)\<lparr>id' := Some (urandom_2 rnd),
               private_key := Some (generate_private_key rnd),
               public_key := Some (ec_public_key K (generate_private_key rnd)),
               shared_secret := Some z\<rparr>,
            message2 := Some m2\<rparr>"
    by blast
  have "m2_ciphertext m2 = Some (encrypt0_serialize K sg k2 iv2 th2)"
    by (subst m2) simp
  moreover have "wf_cbor (m2_peer_session_id m2)"
    by (subst m2) simp
  moreover have "message1 s1 = Some m1" "message2 s1 = Some m2"
    "shared_secret (session s1) = Some z" "client_id s1 = client_id s"
    by (simp_all add: s1)
  ultimately show ?thesis
    by blast
qed

lemma toy_sent2:
  "\<exists>m1 m2 ct2 z.
     message1 toy_server_sent2 = Some m1 \<and> message2 toy_server_sent2 = Some m2 \<and>
     m2_ciphertext m2 = Some ct2 \<and> shared_secret (session toy_server_sent2) = Some z \<and>
     wf_cbor (m2_peer_session_id m2) \<and>
     client_id toy_server_sent2 = get_verifying_key toy 3"
proof -
  from edhoc_run_steps [OF toy_run_eq]
  obtain msg1 c1 msg2 s1 out1 where
    i: "initiate_edhoc toy rnd_u client0 = (msg1, c1)" and
    r: "on_receive toy rnd_v server0 (message1_bytes toy msg1) = (Inr (Reply2 msg2), s1, out1)"
    by blast
  from i r have s1: "toy_server_sent2 = s1"
    by (simp add: toy_server_sent2_def toy_first_message_def)
  from on_receive_reply2 [OF r] obtain out' where
    "on_msg_1 toy rnd_v server0 (message1_bytes toy msg1) = (Inr (Reply2 msg2), s1, out')"
    by blast
  from on_msg_1_state [OF this] toy_ids(2) show ?thesis
    unfolding s1 by (simp add: client0_def Client_init_def)
qed

text \<open>
  Claim C3, as the specification words it, fails on the code. The server that
  receives the first message of the concrete run holds the secret \<open>Z = 23\<close> (hex) and
  the hash \<open>TH_2 = 6219\<close>, and prints the key and the IV it derived: the key is cut
  from the label \<open>AES-CCM-64-64-128\<close>, where the specification's formula gives the one
  of \<open>AES-CCM-16-64-128\<close>, and the IV has 7 bytes, where the specification's has 13.
\<close>

theorem handshake_keys_spec_counterexample:
  "shared_secret (session toy_server_sent2) = Some [35] \<and>
   map_option m2_aad_2 (message2 toy_server_sent2) = Some (Some [98, 25]) \<and>
   snd (snd (on_receive toy rnd_v server0 toy_first_message)) ! 2 =
     ''Server K2 = 23050402114145532d43434d2d36342d'' \<and>
   ''Server K2 = '' @ hex (spec_K toy [35] [98, 25]) =
     ''Server K2 = 23050402114145532d43434d2d31362d'' \<and>
   snd (snd (on_receive toy rnd_v server0 toy_first_message)) ! 3 =
     ''Server IV2 = 230504020d4956'' \<and>
   ''Server IV2 = '' @ hex (spec_IV toy [35] [98, 25]) =
     ''Server IV2 = 230504020d49562d47454e4552''"
  by (simp add: toy_first_output toy_sent2_secret toy_sent2_aad toy_spec_keys)

text \<open>
  Claim C3, amended to what the code does. At each of its derivations the code takes
  the key as HKDF of the shared secret, 16 bytes, over the context of the label
  \<open>AES-CCM-64-64-128\<close> with length 16, and the IV as HKDF of the shared secret, 7 bytes,
  over the context of the label \<open>IV-Generation\<close> with length 7, the last field of the
  context being \<open>TH_2\<close>, the hash of the first message and of the data of the second,
  or \<open>TH_3\<close>, the hash of \<open>TH_2\<close> and of the ciphertext of the second message. A
  server that answers the first message encrypts its signature under the key and IV
  of \<open>TH_2\<close> and prints them; a client that answers the second message has decrypted
  its last field under the key and IV of \<open>TH_2\<close>, encrypts its signature under those
  of \<open>TH_3\<close> and prints the four; a server that accepts the third message has
  decrypted its last field under the key and IV of \<open>TH_3\<close>, the hashes being those of
  the messages its session stores.
\<close>

theorem handshake_keys:
  "let key = (\<lambda>z th. hkdf_derive K z 16 (cose_kdf_context K ''AES-CCM-64-64-128'' 16 th));
       iv = (\<lambda>z th. hkdf_derive K z 7 (cose_kdf_context K ''IV-Generation'' 7 th))
   in (on_msg_1 K rnd s b = (Inr (Reply2 m2), s1, out1) \<longrightarrow>
         (\<exists>m1 z th2 sg.
            message1_from_bytes K b = Inr m1 \<and> message1 s1 = Some m1 \<and>
            shared_secret (session s1) = Some z \<and>
            th2 = message_digest K (message1_bytes K m1 @ data_2 K m2) \<and>
            m2_aad_2 m2 = Some th2 \<and>
            m2_ciphertext m2 = Some (encrypt0_serialize K sg (key z th2) (iv z th2) th2) \<and>
            out1 = [''Server AAD2 = '' @ hex th2, ''Server K2 = '' @ hex (key z th2),
                    ''Server IV2 = '' @ hex (iv z th2)])) \<and>
      (continue_edhoc K rnd' c msg2 = (Inr m3, c2, out2) \<longrightarrow>
         (\<exists>m1 m2r z th2 th3 ct2 decoded front enc_2 sig_v sg.
            message1 c = Some m1 \<and> message2 c2 = Some m2r \<and>
            shared_secret (session c2) = Some z \<and>
            loads K msg2 = Some decoded \<and> unpack 6 decoded = Inr (front @ [enc_2]) \<and>
            th2 = message_digest K (message1_bytes K m1 @ data_2 K m2r) \<and>
            encrypt0_decrypt K enc_2 (key z th2) (iv z th2) th2 = Inr sig_v \<and>
            m2_ciphertext m2r = Some ct2 \<and>
            th3 = message_digest K (th2 @ ct2) \<and>
            m3_aad_3 m3 = Some th3 \<and>
            m3_ciphertext m3 = Some (encrypt0_serialize K sg (key z th3) (iv z th3) th3) \<and>
            out2 = [''Client AAD2 = '' @ hex th2, ''Client K2 = '' @ hex (key z th2),
                    ''Client IV2 = '' @ hex (iv z th2), ''Client AAD3 = '' @ hex th3,
                    ''Client K3 = '' @ hex (key z th3), ''Client IV3 = '' @ hex (iv z th3)])) \<and>
      (on_msg_3 K s' m = (Inr MessageOk, s'', out3) \<longrightarrow>
         (\<exists>m1 m2r ct2 z th2 th3 decoded front enc_3 sig_u.
            message1 s' = Some m1 \<and> message2 s' = Some m2r \<and>
            m2_ciphertext m2r = Some ct2 \<and> shared_secret (session s') = Some z \<and>
            th2 = message_digest K (message1_bytes K m1 @ data_2 K m2r) \<and>
            th3 = message_digest K (th2 @ ct2) \<and>
            loads K m = Some decoded \<and> unpack 3 decoded = Inr (front @ [enc_3]) \<and>
            map_option m3_aad_3 (message3 s'') = Some (Some th3) \<and>
            encrypt0_decrypt K enc_3 (key z th3) (iv z th3) th3 = Inr sig_u))"
proof -
  have first: "\<exists>m1 z th2 sg.
            message1_from_bytes K b = Inr m1 \<and> message1 s1 = Some m1 \<and>
            shared_secret (session s1) = Some z \<and>
            th2 = message_digest K (message1_bytes K m1 @ data_2 K m2) \<and>
            m2_aad_2 m2 = Some th2 \<and>
            m2_ciphertext m2 = Some (encrypt0_serialize K sg (hkdf_derive K z 16 (cose_kdf_context K ''AES-CCM-64-64-128'' 16 th2)) (hkdf_derive K z 7 (cose_kdf_context K ''IV-Generation'' 7 th2)) th2) \<and>
            out1 = [''Server AAD2 = '' @ hex th2, ''Server K2 = '' @ hex (hkdf_derive K z 16 (cose_kdf_context K ''AES-CCM-64-64-128'' 16 th2)),
                    ''Server IV2 = '' @ hex (hkdf_derive K z 7 (cose_kdf_context K ''IV-Generation'' 7 th2))]"
    if "on_msg_1 K rnd s b = (Inr (Reply2 m2), s1, out1)"
  proof -
    from on_msg_1_success [OF that]
    obtain m1 z th2 sg k2 iv2 where
      fb: "message1_from_bytes K b = Inr m1" and
      th2: "th2 = message_digest K (message1_bytes K m1 @ data_2 K m2)" and
      k2: "k2 = derive_key K z 16 (cose_kdf_context K ''AES-CCM-64-64-128'' 16 th2)" and
      iv2: "iv2 = derive_key K z 7 (cose_kdf_context K ''IV-Generation'' 7 th2)" and
      m2: "m2 = \<lparr>m2_session_id = m1_session_id m1, m2_peer_session_id = CBytes (urandom_2 rnd),
           m2_peer_nonce = CBytes (urandom_8 rnd),
           m2_peer_ephemeral_key = ec_public_key K (generate_private_key rnd),
           m2_aad_2 = Some th2, m2_signature = Some sg,
           m2_ciphertext = Some (encrypt0_serialize K sg k2 iv2 th2),
           m2_bytes_object = None\<rparr>" and
      s1: "s1 = s\<lparr>message1 := Some m1,
            session := (session s)\<lparr>id' := Some (urandom_2 rnd),
               private_key := Some (generate_private_key rnd),
               public_key := Some (ec_public_key K (generate_private_key rnd)),
               shared_secret := Some z\<rparr>,
            message2 := Some m2\<rparr>" and
      out: "out1 = [''Server AAD2 = '' @ hex th2, ''Server K2 = '' @ hex k2,
                    ''Server IV2 = '' @ hex iv2]"
      by blast
    have c: "m2_ciphertext m2 = Some (encrypt0_serialize K sg k2 iv2 th2)"
      and a: "m2_aad_2 m2 = Some th2"
      by (subst m2, simp)+
    have z: "shared_secret (session s1) = Some z" and m1: "message1 s1 = Some m1"
      by (simp_all add: s1)
    show ?thesis
      using fb m1 z th2 a c out unfolding k2 iv2 derive_key_def
      by - (rule exI [where x = m1], rule exI [where x = z], rule exI [where x = th2],
            rule exI [where x = sg], (intro conjI; assumption))
  qed
  have second: "\<exists>m1 m2r z th2 th3 ct2 decoded front enc_2 sig_v sg.
            message1 c = Some m1 \<and> message2 c2 = Some m2r \<and>
            shared_secret (session c2) = Some z \<and>
            loads K msg2 = Some decoded \<and> unpack 6 decoded = Inr (front @ [enc_2]) \<and>
            th2 = message_digest K (message1_bytes K m1 @ data_2 K m2r) \<and>
            encrypt0_decrypt K enc_2 (hkdf_derive K z 16 (cose_kdf_context K ''AES-CCM-64-64-128'' 16 th2)) (hkdf_derive K z 7 (cose_kdf_context K ''IV-Generation'' 7 th2)) th2 = Inr sig_v \<and>
            m2_ciphertext m2r = Some ct2 \<and>
            th3 = message_digest K (th2 @ ct2) \<and>
            m3_aad_3 m3 = Some th3 \<and>
            m3_ciphertext m3 = Some (encrypt0_serialize K sg (hkdf_derive K z 16 (cose_kdf_context K ''AES-CCM-64-64-128'' 16 th3)) (hkdf_derive K z 7 (cose_kdf_context K ''IV-Generation'' 7 th3)) th3) \<and>
            out2 = [''Client AAD2 = '' @ hex th2, ''Client K2 = '' @ hex (hkdf_derive K z 16 (cose_kdf_context K ''AES-CCM-64-64-128'' 16 th2)),
                    ''Client IV2 = '' @ hex (hkdf_derive K z 7 (cose_kdf_context K ''IV-Generation'' 7 th2)), ''Client AAD3 = '' @ hex th3,
                    ''Client K3 = '' @ hex (hkdf_derive K z 16 (cose_kdf_context K ''AES-CCM-64-64-128'' 16 th3)), ''Client IV3 = '' @ hex (hkdf_derive K z 7 (cose_kdf_context K ''IV-Generation'' 7 th3))]"
    if "continue_edhoc K rnd' c msg2 = (Inr m3, c2, out2)"
  proof -
    from continue_edhoc_success [OF that]
    obtain decoded tag sess_id p_sess_id p_nonce p_eph_cose enc_2 p_eph_key session_key z m1
      sig_v payload ct2 where
      l: "loads K msg2 = Some decoded" and
      u: "unpack 6 decoded = Inr [tag, sess_id, p_sess_id, p_nonce, p_eph_cose, enc_2]" and
      m1: "message1 c = Some m1" and
      ct: "m2_ciphertext (Message2 K sess_id p_sess_id p_nonce p_eph_key (Some msg2)) = Some ct2" and
      rest: "(let m2i = Message2 K sess_id p_sess_id p_nonce p_eph_key (Some msg2);
          th2 = message_digest K (message1_bytes K m1 @ data_2 K m2i);
          k2 = derive_key K z 16 (cose_kdf_context K ''AES-CCM-64-64-128'' 16 th2);
          iv2 = derive_key K z 7 (cose_kdf_context K ''IV-Generation'' 7 th2);
          th3 = message_digest K (th2 @ ct2);
          sg = sign1_serialize_signed K (Client.sk c) (sign_k rnd') [] (CMap []) [] th3;
          k3 = derive_key K z 16 (cose_kdf_context K ''AES-CCM-64-64-128'' 16 th3);
          iv3 = derive_key K z 7 (cose_kdf_context K ''IV-Generation'' 7 th3)
      in encrypt0_decrypt K enc_2 k2 iv2 th2 = Inr sig_v \<and>
         sign1_verify K sig_v (server_id c) th2 = Inr payload \<and>
         m3 = \<lparr>m3_peer_session_id = p_sess_id, m3_aad_3 = Some th3, m3_signature = Some sg,
               m3_ciphertext = Some (encrypt0_serialize K sg k3 iv3 th3),
               m3_bytes_object = None\<rparr> \<and>
         c2 = c\<lparr>session := (session c)\<lparr>shared_secret := Some z\<rparr>,
                message2 := Some (m2i\<lparr>m2_aad_2 := Some th2\<rparr>), message3 := Some m3\<rparr> \<and>
         out2 = [''Client AAD2 = '' @ hex th2, ''Client K2 = '' @ hex k2,
                ''Client IV2 = '' @ hex iv2, ''Client AAD3 = '' @ hex th3,
                ''Client K3 = '' @ hex k3, ''Client IV3 = '' @ hex iv3])"
      by blast
    let ?m2i = "Message2 K sess_id p_sess_id p_nonce p_eph_key (Some msg2)"
    let ?th2 = "message_digest K (message1_bytes K m1 @ data_2 K ?m2i)"
    let ?th3 = "message_digest K (?th2 @ ct2)"
    have u': "unpack 6 decoded = Inr ([tag, sess_id, p_sess_id, p_nonce, p_eph_cose] @ [enc_2])"
      using u by simp
    show ?thesis
      using rest l u' ct m1 unfolding Let_def derive_key_def
      by - (rule exI [where x = m1], rule exI [where x = "?m2i\<lparr>m2_aad_2 := Some ?th2\<rparr>"],
          rule exI [where x = z], rule exI [where x = ?th2], rule exI [where x = ?th3],
          rule exI [where x = ct2], rule exI [where x = decoded],
          rule exI [where x = "[tag, sess_id, p_sess_id, p_nonce, p_eph_cose]"],
          rule exI [where x = enc_2], rule exI [where x = sig_v],
          rule exI [where x = "sign1_serialize_signed K (Client.sk c) (sign_k rnd') []
                  (CMap []) [] ?th3"],
          simp)
  qed
  have third: "\<exists>m1 m2r ct2 z th2 th3 decoded front enc_3 sig_u.
            message1 s' = Some m1 \<and> message2 s' = Some m2r \<and>
            m2_ciphertext m2r = Some ct2 \<and> shared_secret (session s') = Some z \<and>
            th2 = message_digest K (message1_bytes K m1 @ data_2 K m2r) \<and>
            th3 = message_digest K (th2 @ ct2) \<and>
            loads K m = Some decoded \<and> unpack 3 decoded = Inr (front @ [enc_3]) \<and>
            map_option m3_aad_3 (message3 s'') = Some (Some th3) \<and>
            encrypt0_decrypt K enc_3 (hkdf_derive K z 16 (cose_kdf_context K ''AES-CCM-64-64-128'' 16 th3)) (hkdf_derive K z 7 (cose_kdf_context K ''IV-Generation'' 7 th3)) th3 = Inr sig_u"
    if "on_msg_3 K s' m = (Inr MessageOk, s'', out3)"
  proof -
    from on_msg_3_success [OF that]
    obtain decoded tag p_sess_id enc_3 m1 m2 ct2 z sig_u payload where
      l: "loads K m = Some decoded" and
      u: "unpack 3 decoded = Inr [tag, p_sess_id, enc_3]" and
      st: "message1 s' = Some m1" "message2 s' = Some m2" "m2_ciphertext m2 = Some ct2"
        "shared_secret (session s') = Some z" and
      rest: "(let th2 = message_digest K (message1_bytes K m1 @ data_2 K m2);
          th3 = message_digest K (th2 @ ct2);
          k3 = derive_key K z 16 (cose_kdf_context K ''AES-CCM-64-64-128'' 16 th3);
          iv3 = derive_key K z 7 (cose_kdf_context K ''IV-Generation'' 7 th3)
      in encrypt0_decrypt K enc_3 k3 iv3 th3 = Inr sig_u \<and>
         sign1_verify K sig_u (client_id s') th3 = Inr payload \<and>
         s'' = s'\<lparr>message3 := Some ((Message3 K p_sess_id (Some m))\<lparr>m3_aad_3 := Some th3\<rparr>)\<rparr> \<and>
         out3 = [])"
      by blast
    let ?th2 = "message_digest K (message1_bytes K m1 @ data_2 K m2)"
    let ?th3 = "message_digest K (?th2 @ ct2)"
    have u': "unpack 3 decoded = Inr ([tag, p_sess_id] @ [enc_3])"
      using u by simp
    show ?thesis
      using rest l u' st unfolding Let_def derive_key_def
      by - (rule exI [where x = m1], rule exI [where x = m2], rule exI [where x = ct2],
          rule exI [where x = z], rule exI [where x = ?th2], rule exI [where x = ?th3],
          rule exI [where x = decoded], rule exI [where x = "[tag, p_sess_id]"],
          rule exI [where x = enc_3], rule exI [where x = sig_u],
          simp)
  qed
  show ?thesis
    unfolding Let_def by (intro conjI impI) (erule first, erule second, erule third)
qed

theorem handshake_keys_witness:
  "\<exists>m2 s1 out1 c1 m3 out2 out3.
     on_msg_1 toy rnd_v server0 toy_first_message = (Inr (Reply2 m2), s1, out1) \<and>
     continue_edhoc toy rnd_u c1 (message2_bytes toy m2) = (Inr m3, toy_client, out2) \<and>
     on_msg_3 toy s1 (message3_bytes toy m3) = (Inr MessageOk, toy_server, out3) \<and>
     (let key = (\<lambda>z th. hkdf_derive toy z 16 (cose_kdf_context toy ''AES-CCM-64-64-128'' 16 th));
          iv = (\<lambda>z th. hkdf_derive toy z 7 (cose_kdf_context toy ''IV-Generation'' 7 th))
      in (\<exists>m1 z th2 sg.
               message1_from_bytes toy toy_first_message = Inr m1 \<and> message1 s1 = Some m1 \<and>
               shared_secret (session s1) = Some z \<and>
               th2 = message_digest toy (message1_bytes toy m1 @ data_2 toy m2) \<and>
               m2_aad_2 m2 = Some th2 \<and>
               m2_ciphertext m2 = Some (encrypt0_serialize toy sg (key z th2) (iv z th2) th2) \<and>
               out1 = [''Server AAD2 = '' @ hex th2, ''Server K2 = '' @ hex (key z th2),
                       ''Server IV2 = '' @ hex (iv z th2)]) \<and>
         (\<exists>m1 m2r z th2 th3 ct2 decoded front enc_2 sig_v sg.
               message1 c1 = Some m1 \<and> message2 toy_client = Some m2r \<and>
               shared_secret (session toy_client) = Some z \<and>
               loads toy (message2_bytes toy m2) = Some decoded \<and> unpack 6 decoded = Inr (front @ [enc_2]) \<and>
               th2 = message_digest toy (message1_bytes toy m1 @ data_2 toy m2r) \<and>
               encrypt0_decrypt toy enc_2 (key z th2) (iv z th2) th2 = Inr sig_v \<and>
               m2_ciphertext m2r = Some ct2 \<and>
               th3 = message_digest toy (th2 @ ct2) \<and>
               m3_aad_3 m3 = Some th3 \<and>
               m3_ciphertext m3 = Some (encrypt0_serialize toy sg (key z th3) (iv z th3) th3) \<and>
               out2 = [''Client AAD2 = '' @ hex th2, ''Client K2 = '' @ hex (key z th2),
                       ''Client IV2 = '' @ hex (iv z th2), ''Client AAD3 = '' @ hex th3,
                       ''Client K3 = '' @ hex (key z th3), ''Client IV3 = '' @ hex (iv z th3)]) \<and>
         (\<exists>m1 m2r ct2 z th2 th3 decoded front enc_3 sig_u.
               message1 s1 = Some m1 \<and> message2 s1 = Some m2r \<and>
               m2_ciphertext m2r = Some ct2 \<and> shared_secret (session s1) = Some z \<and>
               th2 = message_digest toy (message1_bytes toy m1 @ data_2 toy m2r) \<and>
               th3 = message_digest toy (th2 @ ct2) \<and>
               loads toy (message3_bytes toy m3) = Some decoded \<and> unpack 3 decoded = Inr (front @ [enc_3]) \<and>
               map_option m3_aad_3 (message3 toy_server) = Some (Some th3) \<and>
               encrypt0_decrypt toy enc_3 (key z th3) (iv z th3) th3 = Inr sig_u))"
proof -
  from edhoc_run_success [OF toy_run_eq]
  obtain msg1 c1 msg2 s1 out1 msg3 out2 out3 where
    i: "initiate_edhoc toy rnd_u client0 = (msg1, c1)" and
    a: "on_msg_1 toy rnd_v server0 (message1_bytes toy msg1) = (Inr (Reply2 msg2), s1, out1)" and
    b: "continue_edhoc toy rnd_u c1 (message2_bytes toy msg2) = (Inr msg3, toy_client, out2)" and
    c: "on_msg_3 toy s1 (message3_bytes toy msg3) = (Inr MessageOk, toy_server, out3)"
    by blast
  from i have f: "toy_first_message = message1_bytes toy msg1"
    by (simp add: toy_first_message_def)
  note t = handshake_keys [where K = toy and rnd = rnd_v and s = server0
      and b = "message1_bytes toy msg1" and ?m2.0 = msg2 and ?s1.0 = s1 and ?out1.0 = out1
      and rnd' = rnd_u and c = c1 and ?msg2.0 = "message2_bytes toy msg2" and ?m3.0 = msg3
      and ?c2.0 = toy_client and ?out2.0 = out2
      and s' = s1 and m = "message3_bytes toy msg3" and s'' = toy_server and ?out3.0 = out3]
  show ?thesis
    unfolding f
    by (rule exI [where x = msg2], rule exI [where x = s1], rule exI [where x = out1],
        rule exI [where x = c1], rule exI [where x = msg3], rule exI [where x = out2],
        rule exI [where x = out3])
      (use t a b c in \<open>simp only: Let_def simp_thms\<close>)
qed

lemma message3_with_kid_value:
  assumes "message1 s = Some m1" "message2 s = Some m2" "m2_ciphertext m2 = Some ct2"
    "shared_secret (session s) = Some z"
  shows "message3_with_kid K s key k kid =
     (let th3 = message_digest K (message_digest K (message1_bytes K m1 @ data_2 K m2) @ ct2);
          k3 = derive_key K z 16 (cose_kdf_context K ''AES-CCM-64-64-128'' 16 th3);
          iv3 = derive_key K z 7 (cose_kdf_context K ''IV-Generation'' 7 th3)
      in dumps K (CArray [CInt EDHOC_MSG_3, m2_peer_session_id m2,
           CBytes (encrypt0_serialize K
             (sign1_serialize_signed K key k [] (CMap [(CInt 4, CBytes kid)]) [] th3)
             k3 iv3 th3)]))"
  using assms by (simp add: message3_with_kid_def Let_def)

lemma message3_with_kid_accepted:
  assumes codec: "codec_ok K" and aead: "aead_ok K" and ecdsa: "ecdsa_ok K"
    and st: "message1 s = Some m1" "message2 s = Some m2" "m2_ciphertext m2 = Some ct2"
            "shared_secret (session s) = Some z"
    and wf: "wf_cbor (m2_peer_session_id m2)"
    and peer: "client_id s = get_verifying_key K key"
  shows "fst (on_receive K rnd s (message3_with_kid K s key k kid)) = Inr MessageOk"
proof -
  let ?th3 = "message_digest K (message_digest K (message1_bytes K m1 @ data_2 K m2) @ ct2)"
  let ?k3 = "derive_key K z 16 (cose_kdf_context K ''AES-CCM-64-64-128'' 16 ?th3)"
  let ?iv3 = "derive_key K z 7 (cose_kdf_context K ''IV-Generation'' 7 ?th3)"
  let ?arr = "[m2_peer_session_id m2,
           CBytes (encrypt0_serialize K
             (sign1_serialize_signed K key k [] (CMap [(CInt 4, CBytes kid)]) [] ?th3)
             ?k3 ?iv3 ?th3)]"
  have m: "message3_with_kid K s key k kid = dumps K (CArray (CInt EDHOC_MSG_3 # ?arr))"
    using message3_with_kid_value [OF st] by (simp add: Let_def)
  have wfu: "wf_cbor (CMap [(CInt 4, CBytes kid)])"
    by simp
  have l: "loads K (message3_with_kid K s key k kid) = Some (CArray (CInt EDHOC_MSG_3 # ?arr))"
    unfolding m using wf by (intro loads_dumps [OF codec]) simp
  have "fst (on_msg_3 K s (message3_with_kid K s key k kid)) = Inr MessageOk"
    unfolding m
    using on_msg_3_accepts [OF codec aead ecdsa st peer wf wfu refl refl refl,
        of k "[]" "[]"]
    by simp
  with on_receive_third [OF l] show ?thesis
    by simp
qed

text \<open>
  Claim C7, as the specification words it, fails on the code. The server of the
  concrete run, having answered the first message, receives a third message whose
  inner Sign1 carries the KID \<open>nobody\<close> in its unprotected header: it looks nothing up
  and raises no error, it returns \<open>MessageOk\<close>, the signature being the one of the
  client it was constructed with.
\<close>

theorem on_msg_3_unknown_kid_counterexample:
  "fst (on_receive toy rnd_v toy_server_sent2
         (message3_with_kid toy toy_server_sent2 3 11 (ascii ''nobody''))) = Inr MessageOk \<and>
   client_id toy_server_sent2 = get_verifying_key toy 3"
  using toy_third_accepted toy_sent2 by blast

text \<open>
  Claim C7, amended to what the code does. The server verifies the third message
  against the one verification key \<open>client_id\<close> it was constructed with and never reads
  a KID. In a session that has answered a first message, a third message whose inner
  Sign1 is signed with the key of that client is accepted whatever KID its unprotected
  header carries; and whenever a third message is accepted, its last field decrypted
  to a Sign1 that verifies under \<open>client_id\<close> with the hash \<open>TH_3\<close> as external data.
\<close>

theorem on_msg_3_single_peer:
  assumes "codec_ok K" and "aead_ok K" and "ecdsa_ok K"
    and "message1 s = Some m1" and "message2 s = Some m2" and "m2_ciphertext m2 = Some ct2"
    and "shared_secret (session s) = Some z"
    and "wf_cbor (m2_peer_session_id m2)"
    and "client_id s = get_verifying_key K key"
  shows "fst (on_receive K rnd s (message3_with_kid K s key k kid)) = Inr MessageOk \<and>
         (on_msg_3 K s m = (Inr MessageOk, s', out) \<longrightarrow>
            (\<exists>decoded front enc_3 sig_u payload.
               loads K m = Some decoded \<and> unpack 3 decoded = Inr (front @ [enc_3]) \<and>
               (let th3 = message_digest K
                            (message_digest K (message1_bytes K m1 @ data_2 K m2) @ ct2);
                    k3 = derive_key K z 16 (cose_kdf_context K ''AES-CCM-64-64-128'' 16 th3);
                    iv3 = derive_key K z 7 (cose_kdf_context K ''IV-Generation'' 7 th3)
                in encrypt0_decrypt K enc_3 k3 iv3 th3 = Inr sig_u \<and>
                   sign1_verify K sig_u (client_id s) th3 = Inr payload)))"
proof (intro conjI impI)
  show "fst (on_receive K rnd s (message3_with_kid K s key k kid)) = Inr MessageOk"
    using assms by (rule message3_with_kid_accepted)
next
  assume ok: "on_msg_3 K s m = (Inr MessageOk, s', out)"
  from on_msg_3_success [OF ok] assms(4-7)
  obtain decoded tag p_sess_id enc_3 sig_u payload where
    l: "loads K m = Some decoded" and
    u: "unpack 3 decoded = Inr [tag, p_sess_id, enc_3]" and
    rest: "(let th2 = message_digest K (message1_bytes K m1 @ data_2 K m2);
          th3 = message_digest K (th2 @ ct2);
          k3 = derive_key K z 16 (cose_kdf_context K ''AES-CCM-64-64-128'' 16 th3);
          iv3 = derive_key K z 7 (cose_kdf_context K ''IV-Generation'' 7 th3)
      in encrypt0_decrypt K enc_3 k3 iv3 th3 = Inr sig_u \<and>
         sign1_verify K sig_u (client_id s) th3 = Inr payload)"
    by (auto simp: Let_def)
  have u': "unpack 3 decoded = Inr ([tag, p_sess_id] @ [enc_3])"
    using u by simp
  show "\<exists>decoded front enc_3 sig_u payload.
               loads K m = Some decoded \<and> unpack 3 decoded = Inr (front @ [enc_3]) \<and>
               (let th3 = message_digest K
                            (message_digest K (message1_bytes K m1 @ data_2 K m2) @ ct2);
                    k3 = derive_key K z 16 (cose_kdf_context K ''AES-CCM-64-64-128'' 16 th3);
                    iv3 = derive_key K z 7 (cose_kdf_context K ''IV-Generation'' 7 th3)
                in encrypt0_decrypt K enc_3 k3 iv3 th3 = Inr sig_u \<and>
                   sign1_verify K sig_u (client_id s) th3 = Inr payload)"
    using l u' rest unfolding Let_def
    by - (rule exI [where x = decoded], rule exI [where x = "[tag, p_sess_id]"],
          rule exI [where x = enc_3], rule exI [where x = sig_u],
          rule exI [where x = payload], simp)
qed

theorem on_msg_3_single_peer_witness:
  "\<exists>m1 m2 ct2 z s' out.
     codec_ok toy \<and> aead_ok toy \<and> ecdsa_ok toy \<and>
     message1 toy_server_sent2 = Some m1 \<and> message2 toy_server_sent2 = Some m2 \<and>
     m2_ciphertext m2 = Some ct2 \<and> shared_secret (session toy_server_sent2) = Some z \<and>
     wf_cbor (m2_peer_session_id m2) \<and>
     client_id toy_server_sent2 = get_verifying_key toy 3 \<and>
     fst (on_receive toy rnd_v toy_server_sent2
            (message3_with_kid toy toy_server_sent2 3 11 [7, 7])) = Inr MessageOk \<and>
     on_msg_3 toy toy_server_sent2 (message3_with_kid toy toy_server_sent2 3 11 [7, 7])
       = (Inr MessageOk, s', out) \<and>
     (\<exists>decoded front enc_3 sig_u payload.
        loads toy (message3_with_kid toy toy_server_sent2 3 11 [7, 7]) = Some decoded \<and>
        unpack 3 decoded = Inr (front @ [enc_3]) \<and>
        (let th3 = message_digest toy
                     (message_digest toy (message1_bytes toy m1 @ data_2 toy m2) @ ct2);
             k3 = derive_key toy z 16 (cose_kdf_context toy ''AES-CCM-64-64-128'' 16 th3);
             iv3 = derive_key toy z 7 (cose_kdf_context toy ''IV-Generation'' 7 th3)
         in encrypt0_decrypt toy enc_3 k3 iv3 th3 = Inr sig_u \<and>
            sign1_verify toy sig_u (client_id toy_server_sent2) th3 = Inr payload))"
proof -
  let ?m = "message3_with_kid toy toy_server_sent2 3 11 [7, 7]"
  from toy_sent2 obtain m1 m2 ct2 z where
    st: "message1 toy_server_sent2 = Some m1" "message2 toy_server_sent2 = Some m2"
      "m2_ciphertext m2 = Some ct2" "shared_secret (session toy_server_sent2) = Some z"
      "wf_cbor (m2_peer_session_id m2)"
      "client_id toy_server_sent2 = get_verifying_key toy 3"
    by blast
  have acc: "fst (on_receive toy rnd_v toy_server_sent2 ?m) = Inr MessageOk"
    using st by (intro message3_with_kid_accepted [OF toy_codec_ok toy_aead_ok toy_ecdsa_ok])
  obtain s' o1 where r: "on_receive toy rnd_v toy_server_sent2 ?m = (Inr MessageOk, s', o1)"
    using acc by (cases "on_receive toy rnd_v toy_server_sent2 ?m") auto
  from on_receive_ok [OF r] obtain out where
    ok: "on_msg_3 toy toy_server_sent2 ?m = (Inr MessageOk, s', out)"
    by blast
  note t = on_msg_3_single_peer [OF toy_codec_ok toy_aead_ok toy_ecdsa_ok st,
      where rnd = rnd_v and k = 11 and kid = "[7, 7]" and m = ?m and s' = s' and out = out]
  show ?thesis
    by (rule exI [where x = m1], rule exI [where x = m2], rule exI [where x = ct2],
        rule exI [where x = z], rule exI [where x = s'], rule exI [where x = out])
      (use t st ok toy_codec_ok toy_aead_ok toy_ecdsa_ok in \<open>simp only: simp_thms\<close>)
qed

section \<open>Claims about the authorization server\<close>





text \<open>
  Claim C9: a request to \<open>/introspect\<close> that names a registered token and leaves out
  \<open>token_type_hint\<close> is to be answered 201. In the code the subscript
  \<open>params[CK.TOKEN_TYPE_HINT]\<close>, commented \<open>optional\<close>, raises \<open>KeyError\<close> for such a
  request: here the token \<open>abcd\<close> is registered, and the request names it and nothing
  else.
\<close>

theorem introspect_without_hint_raises:
  "get_token toy_env (token_registry as1) (CText ''abcd'') \<noteq> None \<and>
   introspect toy toy_env as1 (toy_dumps introspect_request) = Inl KeyError"
  using as1_registry introspect_demo by simp

section \<open>Claims about the server's dispatch\<close>

lemma toy_first_loads:
  "loads toy toy_first_message =
     Some (CArray [CInt 1, CBytes [1, 2], CBytes [1, 2, 3, 4, 5, 6, 7, 8],
                   CBytes [6, 4, 0, 0, 1, 0, 0, 2, 0, 1, 1, 0, 0, 1, 0, 1, 2, 0, 0, 5, 0, 1, 3,
                           0, 0, 10]])"
  by code_simp

lemma toy_sent2_init:
  "Server_init toy (Server.sk toy_server_sent2) (client_id toy_server_sent2) = server0"
  by code_simp

lemma toy_first_answer:
  "\<exists>m2. fst (on_msg_1 toy rnd_v server0 toy_first_message) = Inr (Reply2 m2)"
proof -
  from edhoc_run_success [OF toy_run_eq]
  obtain msg1 c1 msg2 s1 out1 where
    i: "initiate_edhoc toy rnd_u client0 = (msg1, c1)" and
    a: "on_msg_1 toy rnd_v server0 (message1_bytes toy msg1) = (Inr (Reply2 msg2), s1, out1)"
    by blast
  from i a show ?thesis
    by (simp add: toy_first_message_def)
qed

text \<open>
  Claim C6, as the specification states it: a message whose tag is not the one
  permitted in the state of the session makes the session fail with a state violation.
  The code ignores a message with tag 2 received by a fresh server: \<open>on_receive\<close>
  returns \<open>None\<close>, raises nothing and leaves the server as it was.
\<close>

theorem on_receive_unexpected_tag_counterexample:
  "on_receive toy rnd_v server0 (toy_dumps (CArray [CInt 2, CBytes [1, 2]])) =
     (Inr PyNone, server0,
      [''Server Received:  '' @ hex (toy_dumps (CArray [CInt 2, CBytes [1, 2]]))])"
  by (simp add: on_receive_def toy_loads_dumps' seq_getitem_def EDHOC_MSG_1_def EDHOC_MSG_3_def)

text \<open>
  Claim C6, amended: \<open>on_receive\<close> looks at the tag alone and never at the state of the
  session. A message whose first element is neither 1 nor 3 is ignored: the result is
  \<open>None\<close>, nothing is raised and the session is unchanged. A message whose first
  element is 1 is answered by \<open>on_msg_1\<close> in every state, as a server that has received
  nothing yet would answer it; so a duplicate of the first message is processed again.
\<close>

theorem on_receive_dispatch:
  assumes "loads K m = Some d" and "py_getitem d 0 = Inr t"
  shows "(\<not> py_eq_int t EDHOC_MSG_1 \<and> \<not> py_eq_int t EDHOC_MSG_3 \<longrightarrow>
            on_receive K rnd s m = (Inr PyNone, s, [''Server Received:  '' @ hex m])) \<and>
         (py_eq_int t EDHOC_MSG_1 \<longrightarrow>
            fst (on_receive K rnd s m) =
            fst (on_msg_1 K rnd (Server_init K (Server.sk s) (client_id s)) m))"
proof (intro conjI impI)
  assume "\<not> py_eq_int t EDHOC_MSG_1 \<and> \<not> py_eq_int t EDHOC_MSG_3"
  with assms show "on_receive K rnd s m = (Inr PyNone, s, [''Server Received:  '' @ hex m])"
    by (simp add: on_receive_other_tag)
next
  assume "py_eq_int t EDHOC_MSG_1"
  with assms have "fst (on_receive K rnd s m) = fst (on_msg_1 K rnd s m)"
    by (rule on_receive_tag_1)
  also have "\<dots> = fst (on_msg_1 K rnd (Server_init K (Server.sk s) (client_id s)) m)"
    by (rule on_msg_1_result_state_free) (simp add: Server_init_def)
  finally show "fst (on_receive K rnd s m) =
            fst (on_msg_1 K rnd (Server_init K (Server.sk s) (client_id s)) m)" .
qed

theorem on_receive_dispatch_witness:
  "loads toy (toy_dumps (CArray [CInt 2, CBytes [1, 2]])) = Some (CArray [CInt 2, CBytes [1, 2]]) \<and>
   py_getitem (CArray [CInt 2, CBytes [1, 2]]) 0 = Inr (CInt 2) \<and>
   on_receive toy rnd_v toy_server_sent2 (toy_dumps (CArray [CInt 2, CBytes [1, 2]])) =
     (Inr PyNone, toy_server_sent2,
      [''Server Received:  '' @ hex (toy_dumps (CArray [CInt 2, CBytes [1, 2]]))]) \<and>
   loads toy toy_first_message =
     Some (CArray [CInt 1, CBytes [1, 2], CBytes [1, 2, 3, 4, 5, 6, 7, 8],
                   CBytes [6, 4, 0, 0, 1, 0, 0, 2, 0, 1, 1, 0, 0, 1, 0, 1, 2, 0, 0, 5, 0, 1, 3,
                           0, 0, 10]]) \<and>
   py_getitem (CArray [CInt 1, CBytes [1, 2], CBytes [1, 2, 3, 4, 5, 6, 7, 8],
                   CBytes [6, 4, 0, 0, 1, 0, 0, 2, 0, 1, 1, 0, 0, 1, 0, 1, 2, 0, 0, 5, 0, 1, 3,
                           0, 0, 10]]) 0 = Inr (CInt 1) \<and>
   (\<exists>m1 m2. message1 toy_server_sent2 = Some m1 \<and> message2 toy_server_sent2 = Some m2) \<and>
   Server_init toy (Server.sk toy_server_sent2) (client_id toy_server_sent2) = server0 \<and>
   fst (on_receive toy rnd_v toy_server_sent2 toy_first_message) =
   fst (on_msg_1 toy rnd_v server0 toy_first_message) \<and>
   (\<exists>m2. fst (on_receive toy rnd_v toy_server_sent2 toy_first_message) = Inr (Reply2 m2))"
proof -
  have l2: "loads toy (toy_dumps (CArray [CInt 2, CBytes [1, 2]])) = Some (CArray [CInt 2, CBytes [1, 2]])"
    by (rule toy_loads_dumps')
  have g2: "py_getitem (CArray [CInt 2, CBytes [1, 2]]) 0 = Inr (CInt 2)"
    and g1: "py_getitem (CArray [CInt 1, CBytes [1, 2], CBytes [1, 2, 3, 4, 5, 6, 7, 8],
                   CBytes [6, 4, 0, 0, 1, 0, 0, 2, 0, 1, 1, 0, 0, 1, 0, 1, 2, 0, 0, 5, 0, 1, 3,
                           0, 0, 10]]) 0 = Inr (CInt 1)"
    by (simp_all add: seq_getitem_def)
  have st: "\<exists>m1 m2. message1 toy_server_sent2 = Some m1 \<and> message2 toy_server_sent2 = Some m2"
    using toy_sent2 by blast
  have d1: "fst (on_receive toy rnd_v toy_server_sent2 toy_first_message) =
            fst (on_msg_1 toy rnd_v server0 toy_first_message)"
    using on_receive_dispatch [OF toy_first_loads g1, of rnd_v toy_server_sent2]
    by (simp add: EDHOC_MSG_1_def toy_sent2_init)
  have d2: "on_receive toy rnd_v toy_server_sent2 (toy_dumps (CArray [CInt 2, CBytes [1, 2]])) =
     (Inr PyNone, toy_server_sent2,
      [''Server Received:  '' @ hex (toy_dumps (CArray [CInt 2, CBytes [1, 2]]))])"
    using on_receive_dispatch [OF l2 g2, of rnd_v toy_server_sent2]
    by (simp add: EDHOC_MSG_1_def EDHOC_MSG_3_def)
  from toy_first_answer d1 have a: "\<exists>m2. fst (on_receive toy rnd_v toy_server_sent2 toy_first_message) = Inr (Reply2 m2)"
    by simp
  show ?thesis
    using l2 g2 d2 toy_first_loads g1 st toy_sent2_init d1 a
    by (intro conjI) assumption+
qed

end
